(* ===== verification/Prelude.thy ===== *)
theory Prelude
  imports Complex_Main
begin

text \<open>
  Shared vocabulary of the citation-querier development. A CELEX identifier
  (a Python \<open>str\<close>) is a HOL \<open>string\<close>; a citation link is the ordered pair
  \<open>(citing, cited)\<close> the source stores in its \<open>links\<close> sets; Python sets of
  identifiers and links are HOL sets. The SPARQL endpoint queried by
  \<open>get_citations\<close> (src/src/helper_functions.py) is an external service: it is
  modelled as a parameter of type \<open>sparql\<close>, the list of \<open>?name2\<close> bindings the
  endpoint returns for a CELEX id and the two hop bounds formatted into the query.
  Every lookup the program issues is recorded, in order, in a log of
  \<open>lookup_call\<close>s: the network effect made explicit as state.
  Python exceptions are values of \<open>py_error\<close>.
  The theory also holds the generic lemmas on link sets the components share.
\<close>

type_synonym celex = string
type_synonym link = "celex \<times> celex"
type_synonym sparql = "celex \<Rightarrow> int \<Rightarrow> int \<Rightarrow> celex list"
type_synonym lookup_call = "celex \<times> int \<times> int"

datatype py_error = ZeroDivisionError | AttributeError | TypeError | AssertionError | KeyError

named_theorems link_simps "rewrite rules for endpoints of link sets"

text \<open>Python's \<open>str.startswith\<close>.\<close>

definition startswith :: "string \<Rightarrow> string \<Rightarrow> bool" where
  "startswith s p \<longleftrightarrow> take (length p) s = p"

text \<open>The documents a set of links touches: both endpoints of every link.\<close>

definition endpoints :: "link set \<Rightarrow> celex set" where
  "endpoints L = fst ` L \<union> snd ` L"

text \<open>A node/link pair is closed when every link has both ends among the nodes.\<close>

definition links_closed :: "link set \<Rightarrow> celex set \<Rightarrow> bool" where
  "links_closed L N \<longleftrightarrow> endpoints L \<subseteq> N"

lemma startswith_Cons_iff [simp]:
  "startswith s [c] \<longleftrightarrow> (\<exists>r. s = c # r)"
  by (cases s) (auto simp: startswith_def)

lemma endpoints_empty [simp]: "endpoints {} = {}"
  by (simp add: endpoints_def)

lemma endpoints_insert [simp]:
  "endpoints (insert (a, b) L) = insert a (insert b (endpoints L))"
  by (auto simp: endpoints_def)

lemma endpoints_Un [simp]: "endpoints (L \<union> M) = endpoints L \<union> endpoints M"
  by (auto simp: endpoints_def)

lemma endpoints_UNION [link_simps]: "endpoints (\<Union>x\<in>A. f x) = (\<Union>x\<in>A. endpoints (f x))"
  by (auto simp: endpoints_def)

lemma endpoints_swap [link_simps]: "endpoints (prod.swap ` L) = endpoints L"
  by (force simp: endpoints_def image_iff)

lemma endpointsI [intro]:
  "(a, b) \<in> L \<Longrightarrow> a \<in> endpoints L"
  "(a, b) \<in> L \<Longrightarrow> b \<in> endpoints L"
  by (force simp: endpoints_def)+

lemma endpoints_mono: "L \<subseteq> M \<Longrightarrow> endpoints L \<subseteq> endpoints M"
  by (auto simp: endpoints_def)

lemma links_closed_empty [intro, simp]: "links_closed {} N"
  by (simp add: links_closed_def)

lemma links_closed_Un [intro]:
  "links_closed L N \<Longrightarrow> links_closed M N' \<Longrightarrow> links_closed (L \<union> M) (N \<union> N')"
  by (auto simp: links_closed_def)

lemma links_closed_insert [intro]:
  "links_closed L N \<Longrightarrow> a \<in> N \<Longrightarrow> b \<in> N \<Longrightarrow> links_closed (insert (a, b) L) N"
  by (simp add: links_closed_def)

lemma links_closed_mono:
  "links_closed L N \<Longrightarrow> N \<subseteq> N' \<Longrightarrow> links_closed L N'"
  by (auto simp: links_closed_def)

text \<open>Depth arithmetic of the expander: Python's \<open>max(d - 1, 0)\<close> on an int.\<close>

lemma nat_max_pred [simp]: "nat (max (d - 1) 0) = nat d - 1"
  by (simp add: max_def nat_diff_distrib')

end
