(* ===== verification/Query.thy ===== *)
theory Query
  imports Prelude "HOL-Library.Monad_Syntax"
begin

text \<open>
  SparqlQuery: the request text \<open>get_citations\<close> of src/src/helper_functions.py
  sends to the endpoint (lines 15--34). The text is the triple-quoted template of
  lines 15--34 with \<open>%s\<close> replaced by the CELEX id and \<open>%i\<close> by the hop bound
  of each direction (line 34). Python's \<open>'%i' % n\<close> is \<open>format_int\<close>: the
  decimal digits of \<open>|n|\<close>, most significant first, after a minus sign when \<open>n < 0\<close>.
  The theory also holds a decoder of such texts, \<open>decode_query\<close> (it and the
  parsers below it are not code of the repository: they state what the text
  encodes), and the round trip that recovers the id and both bounds from a query:
  the text determines its parameters, which is why the rest of the development may
  treat the endpoint as a function of \<open>(source_celex, cites_depth, cited_depth)\<close>.
\<close>

subsection \<open>Python's \<open>'%i'\<close> formatting\<close>

fun string_of_nat :: "nat \<Rightarrow> string" where
  "string_of_nat n =
     (if n < 10 then [char_of (48 + n)]
      else string_of_nat (n div 10) @ [char_of (48 + n mod 10)])"

declare string_of_nat.simps [simp del]

definition format_int :: "int \<Rightarrow> string" where
  "format_int i =
     (if i < 0 then ''-'' @ string_of_nat (nat (- i)) else string_of_nat (nat i))"

subsection \<open>The query template\<close>

text \<open>
  The literal segments of the template between the substitutions, line by line;
  \<open>nl\<close> is the line break. The template begins with the line break that follows
  the opening \<open>'''\<close>.
\<close>

definition nl :: string where
  "nl = [CHR 0x0A]"

definition query_seg1 :: string where
  \<open>query_seg1 =
     nl @ ''        prefix cdm: <http://publications.europa.eu/ontology/cdm#>'' @
     nl @ ''        prefix xsd: <http://www.w3.org/2001/XMLSchema#>'' @
     nl @
     nl @ ''        SELECT DISTINCT * WHERE'' @
     nl @ ''        {'' @
     nl @ ''        {'' @
     nl @ ''            SELECT ?name2 WHERE {'' @
     nl @ ''                ?doc cdm:resource_legal_id_celex "''\<close>

definition query_seg2 :: string where
  \<open>query_seg2 =
     ''"^^xsd:string .'' @
     nl @ ''                ?doc cdm:work_cites_work{1,''\<close>

definition query_seg3 :: string where
  \<open>query_seg3 =
     ''} ?cited .'' @
     nl @ ''                ?cited cdm:resource_legal_id_celex ?name2 .'' @
     nl @ ''            }'' @
     nl @ ''        } UNION {'' @
     nl @ ''            SELECT ?name2 WHERE {'' @
     nl @ ''                ?doc cdm:resource_legal_id_celex "''\<close>

definition query_seg4 :: string where
  \<open>query_seg4 =
     ''"^^xsd:string .'' @
     nl @ ''                ?cited cdm:work_cites_work{1,''\<close>

definition query_seg5 :: string where
  \<open>query_seg5 =
     ''} ?doc .'' @
     nl @ ''                ?cited cdm:resource_legal_id_celex ?name2 .'' @
     nl @ ''            }'' @
     nl @ ''        }'' @
     nl @ ''        }''\<close>

definition sparql_query :: "celex \<Rightarrow> int \<Rightarrow> int \<Rightarrow> string" where
  "sparql_query source_celex cites_depth cited_depth =
     query_seg1 @ source_celex @ query_seg2 @ format_int cites_depth @
     query_seg3 @ source_celex @ query_seg4 @ format_int cited_depth @ query_seg5"

subsection \<open>Decoding a query\<close>

definition is_digit :: "char \<Rightarrow> bool" where
  "is_digit ch \<longleftrightarrow> (48::nat) \<le> of_char ch \<and> of_char ch < (58::nat)"

definition parse_nat :: "string \<Rightarrow> nat option" where
  "parse_nat s =
     (if s \<noteq> [] \<and> list_all is_digit s
      then Some (foldl (\<lambda>n ch. 10 * n + (of_char ch - 48)) 0 s) else None)"

definition parse_int :: "string \<Rightarrow> int option" where
  "parse_int s =
     (case s of
        [] \<Rightarrow> None
      | ch # r \<Rightarrow> if ch = CHR ''-'' then map_option (\<lambda>n. - int n) (parse_nat r)
                 else map_option int (parse_nat s))"

definition strip_prefix :: "string \<Rightarrow> string \<Rightarrow> string option" where
  "strip_prefix p s = (if startswith s p then Some (drop (length p) s) else None)"

definition decode_query :: "string \<Rightarrow> (celex \<times> int \<times> int) option" where
  "decode_query t = do {
     r1 \<leftarrow> strip_prefix query_seg1 t;
     let s = takeWhile (\<lambda>ch. ch \<noteq> CHR 0x22) r1;
     r2 \<leftarrow> strip_prefix query_seg2 (drop (length s) r1);
     let cs = takeWhile (\<lambda>ch. ch \<noteq> CHR ''}'') r2;
     c \<leftarrow> parse_int cs;
     r3 \<leftarrow> strip_prefix (query_seg3 @ s @ query_seg4) (drop (length cs) r2);
     let ds = takeWhile (\<lambda>ch. ch \<noteq> CHR ''}'') r3;
     d \<leftarrow> parse_int ds;
     if drop (length ds) r3 = query_seg5 then Some (s, c, d) else None
   }"

lemma is_digit_char_of: "(n::nat) < 10 \<Longrightarrow> is_digit (char_of (48 + n))"
  by (simp add: is_digit_def of_char_of)

lemma digit_value_char_of: "(n::nat) < 10 \<Longrightarrow> of_char (char_of (48 + n)) - 48 = n"
  by (simp add: of_char_of)

lemma string_of_nat_digits: "string_of_nat n \<noteq> [] \<and> list_all is_digit (string_of_nat n)"
proof (induction n rule: string_of_nat.induct)
  case (1 n)
  then show ?case
    by (cases "n < 10") (simp_all add: string_of_nat.simps [of n] is_digit_char_of)
qed

lemma string_of_nat_value:
  "foldl (\<lambda>n ch. 10 * n + (of_char ch - 48)) 0 (string_of_nat n) = n"
proof (induction n rule: string_of_nat.induct)
  case (1 n)
  then show ?case
    by (cases "n < 10") (simp_all add: string_of_nat.simps [of n] digit_value_char_of)
qed

lemma parse_nat_string_of_nat: "parse_nat (string_of_nat n) = Some n"
  using string_of_nat_digits [of n] by (simp add: parse_nat_def string_of_nat_value)

lemma not_is_digit [simp]:
  "\<not> is_digit CHR ''-''" "\<not> is_digit CHR ''}''" "\<not> is_digit CHR 0x22"
  by (simp_all add: is_digit_def)

lemma parse_int_format_int: "parse_int (format_int i) = Some i"
proof (cases "i < 0")
  case True
  then show ?thesis
    by (simp add: format_int_def parse_int_def parse_nat_string_of_nat)
next
  case False
  obtain ch r where "string_of_nat (nat i) = ch # r"
    using string_of_nat_digits [of "nat i"] by (cases "string_of_nat (nat i)") auto
  moreover from this have "ch \<noteq> CHR ''-''"
    using string_of_nat_digits [of "nat i"] by auto
  ultimately show ?thesis
    using False parse_nat_string_of_nat [of "nat i"] by (simp add: format_int_def parse_int_def)
qed

lemma format_int_no_brace: "CHR ''}'' \<notin> set (format_int i)"
  using string_of_nat_digits [of "nat i"] string_of_nat_digits [of "nat (- i)"]
  by (auto simp: format_int_def list_all_iff)

lemma query_segs_start:
  "takeWhile (\<lambda>ch. ch \<noteq> CHR 0x22) (query_seg2 @ r) = []"
  "takeWhile (\<lambda>ch. ch \<noteq> CHR ''}'') (query_seg3 @ r) = []"
  "takeWhile (\<lambda>ch. ch \<noteq> CHR ''}'') query_seg5 = []"
  by (simp_all add: query_seg2_def query_seg3_def query_seg5_def)

lemma decode_sparql_query:
  assumes "CHR 0x22 \<notin> set s"
  shows "decode_query (sparql_query s c d) = Some (s, c, d)"
proof -
  have s: "takeWhile (\<lambda>ch. ch \<noteq> CHR 0x22) (s @ r) = s @ takeWhile (\<lambda>ch. ch \<noteq> CHR 0x22) r" for r
    using assms by (auto intro: takeWhile_append2)
  have f: "takeWhile (\<lambda>ch. ch \<noteq> CHR ''}'') (format_int i @ r) =
             format_int i @ takeWhile (\<lambda>ch. ch \<noteq> CHR ''}'') r" for i r
    using format_int_no_brace [of i] by (auto intro: takeWhile_append2)
  show ?thesis
    by (simp add: decode_query_def sparql_query_def strip_prefix_def startswith_def s f
        query_segs_start parse_int_format_int)
qed

text \<open>
  C22. Round trip: the query text built at line 34 determines its parameters. For
  every CELEX id without a double quote (the delimiter around \<open>%s\<close>) and all
  hop bounds, negative ones included, decoding the text gives back the id and both
  bounds.
\<close>

theorem sparql_query_roundtrip:
  assumes "CHR 0x22 \<notin> set source_celex"
  shows "decode_query (sparql_query source_celex cites_depth cited_depth) =
           Some (source_celex, cites_depth, cited_depth)"
  using assms by (rule decode_sparql_query)

theorem sparql_query_roundtrip_witness:
  "decode_query (sparql_query ''32021R0664'' 1 0) = Some (''32021R0664'', 1, 0)"
  using sparql_query_roundtrip [of "''32021R0664''" 1 0] by simp

end
