(* ===== verification/Lookup.thy ===== *)
theory Lookup
  imports Query
begin

text \<open>
  CitationLookup: \<open>get_citations\<close> of src/src/helper_functions.py (lines 3--43).
  \<open>get_citations_text\<close> is the function as written: it sends the query text of
  \<open>Query.sparql_query\<close> to an endpoint (a function from request texts to the
  \<open>?name2\<close> bindings), collects the bindings into a set and keeps only the
  identifiers starting with \<open>'3'\<close> (legislation). \<open>get_citations\<close> is the same
  with the endpoint seen as a function of the query's parameters (type \<open>sparql\<close>),
  the form the rest of the development uses. The query text determines its parameters
  (Query.sparql_query_roundtrip), so the two views carry the same information.
  A Python set has no order; the model returns a duplicate-free list whose elements
  are that set, in the order the bindings came, and the expander's results are
  proved independent of that order (Expander.expand_targets_order_independent).
\<close>

definition is_legislation :: "celex \<Rightarrow> bool" where
  "is_legislation el \<longleftrightarrow> startswith el ''3''"

definition get_citations :: "sparql \<Rightarrow> celex \<Rightarrow> int \<Rightarrow> int \<Rightarrow> celex list" where
  "get_citations q source_celex cites_depth cited_depth =
     remdups (filter is_legislation (q source_celex cites_depth cited_depth))"

definition get_citations_text :: "(string \<Rightarrow> celex list) \<Rightarrow> celex \<Rightarrow> int \<Rightarrow> int \<Rightarrow> celex list" where
  "get_citations_text endpoint source_celex cites_depth cited_depth =
     remdups (filter is_legislation (endpoint (sparql_query source_celex cites_depth cited_depth)))"

lemma set_get_citations:
  "set (get_citations q s c d) = {el \<in> set (q s c d). is_legislation el}"
  by (auto simp: get_citations_def)

lemma distinct_get_citations [simp]: "distinct (get_citations q s c d)"
  by (simp add: get_citations_def)

lemma is_legislation_Cons [simp]:
  "is_legislation (c # r) \<longleftrightarrow> c = CHR ''3''"
  "\<not> is_legislation []"
  by (auto simp: is_legislation_def)

end
