(* ===== verification/Reach.thy ===== *)
theory Reach
  imports Prelude
begin

text \<open>
  Abstract specification of the depth-bounded citation expansion. Given a
  one-hop neighbour function \<open>N\<close> (the documents the lookup returns for a
  document and a single hop), \<open>reach N k s\<close> is the set of documents at most
  \<open>k\<close> hops from \<open>s\<close> and \<open>reach_links N k s\<close> the links \<open>(u, v)\<close> with
  \<open>v \<in> N u\<close> and \<open>u\<close> at most \<open>k - 1\<close> hops from \<open>s\<close>. No visited set
  appears: this is what a traversal promises whatever it does to avoid repeated work.
  Expander.thy proves that \<open>get_citations_structure\<close> computes exactly these sets.
\<close>

primrec reach_links :: "(celex \<Rightarrow> celex set) \<Rightarrow> nat \<Rightarrow> celex \<Rightarrow> link set" where
  "reach_links N 0 s = {}"
| "reach_links N (Suc k) s = (\<Union>t\<in>N s. insert (s, t) (reach_links N k t))"

primrec reach :: "(celex \<Rightarrow> celex set) \<Rightarrow> nat \<Rightarrow> celex \<Rightarrow> celex set" where
  "reach N 0 s = {s}"
| "reach N (Suc k) s = insert s (\<Union>t\<in>N s. reach N k t)"

lemma reach_self [simp]: "s \<in> reach N k s"
  by (cases k) auto

lemma reach_eq_links: "reach N k s = insert s (snd ` reach_links N k s)"
  by (induction k arbitrary: s) (simp_all add: image_UN)

lemma reach_links_Suc_mono: "reach_links N k s \<subseteq> reach_links N (Suc k) s"
  by (induction k arbitrary: s) fastforce+

lemma reach_links_mono: "k \<le> n \<Longrightarrow> reach_links N k s \<subseteq> reach_links N n s"
proof (induction n rule: dec_induct)
  case base
  then show ?case by simp
next
  case (step n)
  from step.IH reach_links_Suc_mono [of N n s] show ?case by (rule order_trans)
qed

lemma finite_reach: "(\<And>u. finite (N u)) \<Longrightarrow> finite (reach N k s)"
  by (induction k arbitrary: s) simp_all

lemma finite_reach_links: "(\<And>u. finite (N u)) \<Longrightarrow> finite (reach_links N k s)"
  by (induction k arbitrary: s) simp_all

lemma reach_links_closed: "links_closed (reach_links N k s) (reach N k s)"
proof (induction k arbitrary: s)
  case 0
  then show ?case by simp
next
  case (Suc k)
  then have "endpoints (reach_links N k t) \<subseteq> reach N k t" for t
    by (simp add: links_closed_def)
  then show ?case by (fastforce simp: links_closed_def link_simps)
qed

text \<open>
  Expanding a self-citation once more adds nothing to the bounded neighbourhood:
  the links below \<open>s\<close> at depth \<open>n\<close> are already among those of its
  other neighbours or of \<open>s\<close> itself.
\<close>

lemma reach_links_skip_self:
  "reach_links N (Suc n) s = (\<Union>t\<in>N s. insert (s, t) (if t = s then {} else reach_links N n t))"
    (is "_ = ?skip")
proof (cases "s \<in> N s")
  case False
  then show ?thesis by (auto split: if_splits)
next
  case True
  have self: "reach_links N k s \<subseteq> ?skip" if "k \<le> n" for k
    using that
  proof (induction k)
    case 0
    then show ?case by simp
  next
    case (Suc k)
    then have IH: "reach_links N k s \<subseteq> ?skip" by simp
    have "insert (s, t) (reach_links N k t) \<subseteq> ?skip" if t: "t \<in> N s" for t
    proof (cases "t = s")
      case True
      with IH t show ?thesis by auto
    next
      case False
      from Suc.prems have "reach_links N k t \<subseteq> reach_links N n t"
        by (simp add: reach_links_mono)
      with t False show ?thesis by fastforce
    qed
    then show ?case by (simp only: reach_links.simps(2)) (rule UN_least)
  qed
  show ?thesis
  proof
    show "?skip \<subseteq> reach_links N (Suc n) s" by (auto split: if_splits)
  next
    show "reach_links N (Suc n) s \<subseteq> ?skip"
      unfolding reach_links.simps(2)
    proof (rule UN_least)
      fix t
      assume t: "t \<in> N s"
      show "insert (s, t) (reach_links N n t) \<subseteq> ?skip"
      proof (cases "t = s")
        case True
        with self t show ?thesis by auto
      next
        case False
        with t show ?thesis by fastforce
      qed
    qed
  qed
qed

lemma reach_skip_self:
  "reach N (Suc n) s = insert s (\<Union>t\<in>N s. if t = s then {t} else reach N n t)"
proof -
  have "reach N (Suc n) s = insert s (snd ` reach_links N (Suc n) s)"
    by (rule reach_eq_links)
  also have "\<dots> = insert s (\<Union>t\<in>N s. insert t (if t = s then {} else snd ` reach_links N n t))"
    by (subst reach_links_skip_self) (simp add: image_UN image_Un if_distrib)
  also have "\<dots> = insert s (\<Union>t\<in>N s. if t = s then {t} else reach N n t)"
    by (intro arg_cong [where f = "insert s"] SUP_cong) (simp_all add: reach_eq_links [of N n])
  finally show ?thesis .
qed

end
