(* ===== verification/Expander.thy ===== *)
theory Expander
  imports Lookup Reach
begin

text \<open>
  CitationExpander: \<open>get_citations_structure\<close> of src/src/helper_functions.py
  (lines 65--95). The Python function recurses on itself once per direction when both
  depths are positive and otherwise loops over the targets of one lookup, recursing on
  each target; the loop is the mutually recursive \<open>expand_targets\<close>, with the
  loop's accumulators \<open>links\<close> and \<open>nodes\<close> as parameters. Depths are Python
  ints (\<open>int\<close>), \<open>max(d - 1, 0)\<close> and \<open>min(d, 1)\<close> as written.
  The recursive call on line 91 passes no \<open>dont_repeat\<close>, so it gets the default
  empty set: the model passes \<open>{}\<close>. The guard on line 90 is
  \<open>new_cites_depth or (new_cited_depth and target not in dont_repeat)\<close> by Python's
  precedence of \<open>and\<close> over \<open>or\<close>; the model writes that parse out.
  Besides the returned pair, each call returns the lookups it issued, in order
  (writer style): the network effect of line 79, used to state what is queried.
  Termination: the measure is the depth budget \<open>nat c + nat d\<close>, then the call kind,
  then the number of targets left.
\<close>

function get_citations_structure ::
    "sparql \<Rightarrow> celex \<Rightarrow> int \<Rightarrow> int \<Rightarrow> celex set
     \<Rightarrow> (link set \<times> celex set) \<times> lookup_call list"
  and expand_targets ::
    "sparql \<Rightarrow> celex \<Rightarrow> int \<Rightarrow> int \<Rightarrow> celex set \<Rightarrow> celex list
     \<Rightarrow> link set \<Rightarrow> celex set \<Rightarrow> (link set \<times> celex set) \<times> lookup_call list"
where
  "get_citations_structure q source cites_depth cited_depth dont_repeat =
     (if 0 < cites_depth \<and> 0 < cited_depth then
        (let ((cites, nodes1), calls1) =
               get_citations_structure q source cites_depth 0 dont_repeat;
             ((cited, nodes2), calls2) =
               get_citations_structure q source 0 cited_depth dont_repeat
         in ((cites \<union> cited, nodes1 \<union> nodes2), calls1 @ calls2))
      else
        (let (result, calls) =
               expand_targets q source cites_depth cited_depth (insert source dont_repeat)
                 (get_citations q source (min cites_depth 1) (min cited_depth 1)) {} {source}
         in (result, (source, min cites_depth 1, min cited_depth 1) # calls)))"
| "expand_targets q source cites_depth cited_depth dont_repeat [] links nodes =
     ((links, nodes), [])"
| "expand_targets q source cites_depth cited_depth dont_repeat (target # targets) links nodes =
     (let new_cites_depth = max (cites_depth - 1) 0;
          new_cited_depth = max (cited_depth - 1) 0;
          nodes = insert target nodes;
          links = (if 0 < cites_depth then insert (source, target) links
                   else insert (target, source) links)
      in if new_cites_depth \<noteq> 0 \<or> (new_cited_depth \<noteq> 0 \<and> target \<notin> dont_repeat) then
           (let ((new_links, new_nodes), calls1) =
                  get_citations_structure q target new_cites_depth new_cited_depth {};
                (result, calls2) =
                  expand_targets q source cites_depth cited_depth dont_repeat targets
                    (links \<union> new_links) (nodes \<union> new_nodes)
            in (result, calls1 @ calls2))
         else expand_targets q source cites_depth cited_depth dont_repeat targets links nodes)"
  by pat_completeness auto
termination
  by (relation "measures
        [\<lambda>x. case x of Inl (q, s, c, d, dr) \<Rightarrow> nat c + nat d
                     | Inr (q, s, c, d, dr, ts, L, N) \<Rightarrow> nat c + nat d,
         \<lambda>x. case x of Inl _ \<Rightarrow> 1 | Inr _ \<Rightarrow> 0,
         \<lambda>x. case x of Inl _ \<Rightarrow> 0 | Inr (q, s, c, d, dr, ts, L, N) \<Rightarrow> length ts]") auto

declare get_citations_structure.simps [simp del]

text \<open>
  One iteration of the loop of lines 81--93 for one target: the link it adds, the
  node, and the result of the recursive call when the guard of line 90 holds.
\<close>

definition target_result ::
    "sparql \<Rightarrow> celex \<Rightarrow> int \<Rightarrow> int \<Rightarrow> celex set \<Rightarrow> celex \<Rightarrow> link set \<times> celex set" where
  "target_result q source cites_depth cited_depth dont_repeat target =
     (let new_cites_depth = max (cites_depth - 1) 0;
          new_cited_depth = max (cited_depth - 1) 0;
          link = (if 0 < cites_depth then (source, target) else (target, source))
      in if new_cites_depth \<noteq> 0 \<or> (new_cited_depth \<noteq> 0 \<and> target \<notin> dont_repeat) then
           (let (new_links, new_nodes) =
                  fst (get_citations_structure q target new_cites_depth new_cited_depth {})
            in (insert link new_links, insert target new_nodes))
         else ({link}, {target}))"

text \<open>
  The one-hop neighbour functions the lookup induces: the documents a document cites
  (\<open>get_citations(u, 1, 0)\<close>) and the documents that cite it
  (\<open>get_citations(u, 0, 1)\<close>). They are what \<open>Reach\<close> is applied to.
\<close>

definition cites_nbrs :: "sparql \<Rightarrow> celex \<Rightarrow> celex set" where
  "cites_nbrs q u = set (get_citations q u 1 0)"

definition cited_nbrs :: "sparql \<Rightarrow> celex \<Rightarrow> celex set" where
  "cited_nbrs q u = set (get_citations q u 0 1)"

text \<open>
  A mock of the SPARQL endpoint for examples: given a citation graph as a list of
  links (citing, cited), it answers the one-hop queries the expander issues and
  returns nothing for any other bounds.
\<close>

definition graph_sparql :: "link list \<Rightarrow> sparql" where
  "graph_sparql G u a b =
     (if a = 1 \<and> b = 0 then [v. (w, v) \<leftarrow> G, w = u]
      else if a = 0 \<and> b = 1 then [w. (w, v) \<leftarrow> G, v = u]
      else [])"

lemmas graph_sparql_eval = graph_sparql_def get_citations_def is_legislation_def startswith_def

text \<open>
  The shape every result of the expander has: the source is a node, every link has
  both ends among the nodes, and every other node is legislation (a CELEX id
  starting with \<open>'3'\<close>), since every node but the source comes from a lookup.
\<close>

definition structure_ok :: "celex \<Rightarrow> link set \<times> celex set \<Rightarrow> bool" where
  "structure_ok s r \<longleftrightarrow>
     s \<in> snd r \<and> links_closed (fst r) (snd r) \<and> (\<forall>x\<in>snd r. x = s \<or> is_legislation x)"

lemma expand_targets_Cons_result:
  "fst (expand_targets q s c d dr (t # ts) L N) =
     fst (expand_targets q s c d dr ts
            (L \<union> fst (target_result q s c d dr t)) (N \<union> snd (target_result q s c d dr t)))"
  by (simp add: target_result_def Let_def split_def insert_commute)

lemma expand_targets_result:
  "fst (expand_targets q s c d dr ts L N) =
     (L \<union> (\<Union>t\<in>set ts. fst (target_result q s c d dr t)),
      N \<union> (\<Union>t\<in>set ts. snd (target_result q s c d dr t)))"
proof (induction ts arbitrary: L N)
  case Nil
  then show ?case by simp
next
  case (Cons t ts)
  then show ?case
    by (simp del: expand_targets.simps(2) add: expand_targets_Cons_result Un_assoc)
qed


lemma get_citations_structure_split:
  "0 < c \<Longrightarrow> 0 < d \<Longrightarrow>
   fst (get_citations_structure q s c d dr) =
     (fst (fst (get_citations_structure q s c 0 dr)) \<union> fst (fst (get_citations_structure q s 0 d dr)),
      snd (fst (get_citations_structure q s c 0 dr)) \<union> snd (fst (get_citations_structure q s 0 d dr)))"
  by (subst get_citations_structure.simps) (simp add: split_def Let_def)

lemma get_citations_structure_single:
  assumes "\<not> (0 < c \<and> 0 < d)"
  shows "fst (get_citations_structure q s c d dr) =
     ((\<Union>t\<in>set (get_citations q s (min c 1) (min d 1)). fst (target_result q s c d (insert s dr) t)),
      insert s (\<Union>t\<in>set (get_citations q s (min c 1) (min d 1)). snd (target_result q s c d (insert s dr) t)))"
  unfolding get_citations_structure.simps [of q s c d dr] if_not_P [OF assms]
  by (simp add: split_def expand_targets_result)

lemma get_citations_structure_cites:
  "fst (get_citations_structure q s (int (Suc n)) 0 dr) =
     (reach_links (cites_nbrs q) (Suc n) s, reach (cites_nbrs q) (Suc n) s)"
proof (induction n arbitrary: s dr)
  case 0
  then show ?case
    by (simp add: get_citations_structure_single target_result_def cites_nbrs_def [symmetric])
next
  case (Suc n)
  have "target_result q s (int (Suc (Suc n))) 0 (insert s dr) t =
          (insert (s, t) (reach_links (cites_nbrs q) (Suc n) t), reach (cites_nbrs q) (Suc n) t)" for t
    using Suc.IH by (simp add: target_result_def insert_absorb)
  then show ?case
    by (simp add: get_citations_structure_single cites_nbrs_def [symmetric] del: of_nat_Suc)
qed


lemma get_citations_structure_cited:
  "fst (get_citations_structure q s 0 (int (Suc n)) {}) =
     (prod.swap ` reach_links (cited_nbrs q) (Suc n) s, reach (cited_nbrs q) (Suc n) s)"
proof (induction n arbitrary: s)
  case 0
  then show ?case
    by (simp add: get_citations_structure_single target_result_def cited_nbrs_def [symmetric] image_UN)
next
  case (Suc n)
  let ?N = "cited_nbrs q"
  have tr: "target_result q s 0 (int (Suc (Suc n))) {s} t =
          (insert (t, s) (if t = s then {} else prod.swap ` reach_links ?N (Suc n) t),
           if t = s then {t} else reach ?N (Suc n) t)" for t
    using Suc.IH by (simp add: target_result_def insert_absorb)
  have links: "(\<Union>t\<in>?N s. insert (t, s) (if t = s then {} else prod.swap ` reach_links ?N (Suc n) t)) =
               prod.swap ` (\<Union>t\<in>?N s. insert (s, t) (if t = s then {} else reach_links ?N (Suc n) t))"
    unfolding image_UN by (rule SUP_cong) simp_all
  have "fst (get_citations_structure q s 0 (int (Suc (Suc n))) {}) =
          ((\<Union>t\<in>?N s. insert (t, s) (if t = s then {} else prod.swap ` reach_links ?N (Suc n) t)),
           insert s (\<Union>t\<in>?N s. if t = s then {t} else reach ?N (Suc n) t))"
    by (simp add: get_citations_structure_single tr cited_nbrs_def [symmetric] del: of_nat_Suc)
  also have "\<dots> = (prod.swap ` (\<Union>t\<in>?N s. insert (s, t) (if t = s then {} else reach_links ?N (Suc n) t)),
                    insert s (\<Union>t\<in>?N s. if t = s then {t} else reach ?N (Suc n) t))"
    by (simp only: links)
  also have "\<dots> = (prod.swap ` reach_links ?N (Suc (Suc n)) s, reach ?N (Suc (Suc n)) s)"
    by (simp only: reach_links_skip_self [symmetric] reach_skip_self [symmetric])
  finally show ?case .
qed


lemma expand_targets_calls:
  "snd (expand_targets q s c d dr ts L N) =
     concat (map (\<lambda>t. if max (c - 1) 0 \<noteq> 0 \<or> (max (d - 1) 0 \<noteq> 0 \<and> t \<notin> dr)
                      then snd (get_citations_structure q t (max (c - 1) 0) (max (d - 1) 0) {})
                      else []) ts)"
  by (induction ts arbitrary: L N) (simp_all add: Let_def split_def)

lemma get_citations_structure_calls_split:
  "0 < c \<Longrightarrow> 0 < d \<Longrightarrow>
   snd (get_citations_structure q s c d dr) =
     snd (get_citations_structure q s c 0 dr) @ snd (get_citations_structure q s 0 d dr)"
  by (subst get_citations_structure.simps) (simp add: split_def Let_def)

lemma get_citations_structure_calls_single:
  assumes "\<not> (0 < c \<and> 0 < d)"
  shows "snd (get_citations_structure q s c d dr) =
     (s, min c 1, min d 1) #
     concat (map (\<lambda>t. if max (c - 1) 0 \<noteq> 0 \<or> (max (d - 1) 0 \<noteq> 0 \<and> t \<notin> insert s dr)
                      then snd (get_citations_structure q t (max (c - 1) 0) (max (d - 1) 0) {})
                      else [])
        (get_citations q s (min c 1) (min d 1)))"
  unfolding get_citations_structure.simps [of q s c d dr] if_not_P [OF assms]
  by (simp add: split_def expand_targets_calls)

lemma target_result_ok:
  assumes leg: "is_legislation t"
    and IH: "max (c - 1) 0 \<noteq> 0 \<or> (max (d - 1) 0 \<noteq> 0 \<and> t \<notin> dr) \<Longrightarrow>
             structure_ok t (fst (get_citations_structure q t (max (c - 1) 0) (max (d - 1) 0) {}))"
  shows "t \<in> snd (target_result q s c d dr t) \<and>
         links_closed (fst (target_result q s c d dr t)) (insert s (snd (target_result q s c d dr t))) \<and>
         (\<forall>x\<in>snd (target_result q s c d dr t). is_legislation x)"
proof (cases "max (c - 1) 0 \<noteq> 0 \<or> (max (d - 1) 0 \<noteq> 0 \<and> t \<notin> dr)")
  case True
  with IH have "structure_ok t (fst (get_citations_structure q t (max (c - 1) 0) (max (d - 1) 0) {}))"
    by blast
  with True leg show ?thesis
    by (auto simp: target_result_def structure_ok_def split_def Let_def links_closed_def)
next
  case False
  with leg show ?thesis
    by (auto simp: target_result_def Let_def links_closed_def)
qed

lemma get_citations_structure_ok:
  "structure_ok s (fst (get_citations_structure q s c d dr))"
proof (induction "nat c + nat d" arbitrary: s c d dr rule: less_induct)
  case less
  show ?case
  proof (cases "0 < c \<and> 0 < d")
    case True
    then have "structure_ok s (fst (get_citations_structure q s c 0 dr))"
      and "structure_ok s (fst (get_citations_structure q s 0 d dr))"
      by (auto intro: less)
    with True show ?thesis
      by (auto simp: get_citations_structure_split structure_ok_def links_closed_def)
  next
    case False
    let ?ts = "set (get_citations q s (min c 1) (min d 1))"
    let ?tr = "target_result q s c d (insert s dr)"
    have tr: "t \<in> snd (?tr t) \<and> links_closed (fst (?tr t)) (insert s (snd (?tr t))) \<and>
              (\<forall>x\<in>snd (?tr t). is_legislation x)" if "t \<in> ?ts" for t
    proof (rule target_result_ok)
      from that show "is_legislation t" by (simp add: set_get_citations)
    next
      assume "max (c - 1) 0 \<noteq> 0 \<or> (max (d - 1) 0 \<noteq> 0 \<and> t \<notin> insert s dr)"
      with False have "nat (max (c - 1) 0) + nat (max (d - 1) 0) < nat c + nat d"
        by auto
      then show "structure_ok t (fst (get_citations_structure q t (max (c - 1) 0) (max (d - 1) 0) {}))"
        by (rule less)
    qed
    then have "links_closed (\<Union>t\<in>?ts. fst (?tr t)) (insert s (\<Union>t\<in>?ts. snd (?tr t)))"
      by (fastforce simp: links_closed_def endpoints_UNION)
    with tr False show ?thesis
      by (auto simp: get_citations_structure_single structure_ok_def)
  qed
qed

lemma get_citations_structure_source:
  "s \<in> snd (fst (get_citations_structure q s c d dr))"
  by (cases "0 < c \<and> 0 < d")
    (simp_all add: get_citations_structure_split get_citations_structure_single)

lemma expand_targets_zero:
  "expand_targets q s 0 0 dr ts L N = ((L \<union> (\<lambda>t. (t, s)) ` set ts, N \<union> set ts), [])"
  by (induction ts arbitrary: L N) auto

lemma target_result_nodes:
  "max (c - 1) 0 \<noteq> 0 \<or> (max (d - 1) 0 \<noteq> 0 \<and> t \<notin> dr) \<Longrightarrow>
   snd (fst (get_citations_structure q t (max (c - 1) 0) (max (d - 1) 0) {}))
     \<subseteq> snd (target_result q s c d dr t)"
  by (auto simp: target_result_def split_def Let_def)

text \<open>
  C3. Every lookup the expander issues (line 79) asks for one hop in at most one
  direction, never a negative bound, when the depths given are non-negative; and it is
  about a document that is among the nodes returned.
\<close>

theorem get_citations_structure_lookups:
  assumes "0 \<le> c" and "0 \<le> d"
  shows "\<forall>(u, a, b) \<in> set (snd (get_citations_structure q s c d dr)).
           u \<in> snd (fst (get_citations_structure q s c d dr)) \<and> 0 \<le> a \<and> 0 \<le> b \<and> a + b \<le> 1"
  using assms
proof (induction "nat c + nat d" arbitrary: s c d dr rule: less_induct)
  case less
  show ?case
  proof (cases "0 < c \<and> 0 < d")
    case True
    from True have "nat c + nat 0 < nat c + nat d" by simp
    then have "\<forall>(u, a, b) \<in> set (snd (get_citations_structure q s c 0 dr)).
            u \<in> snd (fst (get_citations_structure q s c 0 dr)) \<and> 0 \<le> a \<and> 0 \<le> b \<and> a + b \<le> 1"
      by (rule less) (use less.prems in simp_all)
    moreover from True have "nat 0 + nat d < nat c + nat d" by simp
    then have "\<forall>(u, a, b) \<in> set (snd (get_citations_structure q s 0 d dr)).
            u \<in> snd (fst (get_citations_structure q s 0 d dr)) \<and> 0 \<le> a \<and> 0 \<le> b \<and> a + b \<le> 1"
      by (rule less) (use less.prems in simp_all)
    ultimately show ?thesis
      using True by (auto simp: get_citations_structure_split get_citations_structure_calls_split)
  next
    case False
    let ?ts = "get_citations q s (min c 1) (min d 1)"
    have child: "\<forall>(u, a, b) \<in> set (snd (get_citations_structure q t (max (c - 1) 0) (max (d - 1) 0) {})).
                   u \<in> snd (fst (get_citations_structure q s c d dr)) \<and> 0 \<le> a \<and> 0 \<le> b \<and> a + b \<le> 1"
      if t: "t \<in> set ?ts" and g: "max (c - 1) 0 \<noteq> 0 \<or> (max (d - 1) 0 \<noteq> 0 \<and> t \<notin> insert s dr)"
      for t
    proof -
      from g False have "nat (max (c - 1) 0) + nat (max (d - 1) 0) < nat c + nat d"
        by auto
      then have IH: "\<forall>(u, a, b) \<in> set (snd (get_citations_structure q t (max (c - 1) 0) (max (d - 1) 0) {})).
             u \<in> snd (fst (get_citations_structure q t (max (c - 1) 0) (max (d - 1) 0) {})) \<and>
             0 \<le> a \<and> 0 \<le> b \<and> a + b \<le> 1"
        by (rule less) simp_all
      from g have "snd (fst (get_citations_structure q t (max (c - 1) 0) (max (d - 1) 0) {}))
                     \<subseteq> snd (fst (get_citations_structure q s c d dr))"
        using t target_result_nodes [of c d t "insert s dr" q s] False
        by (auto simp: get_citations_structure_single)
      with IH show ?thesis by blast
    qed
    let ?F = "\<lambda>t. if max (c - 1) 0 \<noteq> 0 \<or> (max (d - 1) 0 \<noteq> 0 \<and> t \<notin> insert s dr)
                  then snd (get_citations_structure q t (max (c - 1) 0) (max (d - 1) 0) {}) else []"
    have tail: "\<forall>(u, a, b) \<in> set (concat (map ?F ?ts)).
                  u \<in> snd (fst (get_citations_structure q s c d dr)) \<and> 0 \<le> a \<and> 0 \<le> b \<and> a + b \<le> 1"
    proof
      fix x
      assume "x \<in> set (concat (map ?F ?ts))"
      then obtain t where t: "t \<in> set ?ts" and x: "x \<in> set (?F t)" by auto
      then have "max (c - 1) 0 \<noteq> 0 \<or> (max (d - 1) 0 \<noteq> 0 \<and> t \<notin> insert s dr)"
        by (auto split: if_splits)
      with t x child show "case x of (u, a, b) \<Rightarrow>
          u \<in> snd (fst (get_citations_structure q s c d dr)) \<and> 0 \<le> a \<and> 0 \<le> b \<and> a + b \<le> 1"
        by auto
    qed
    have "s \<in> snd (fst (get_citations_structure q s c d dr))"
      by (rule get_citations_structure_source)
    moreover have "0 \<le> min c 1 \<and> 0 \<le> min d 1 \<and> min c 1 + min d 1 \<le> 1"
      using False less.prems by linarith
    ultimately show ?thesis
      using tail False by (simp add: get_citations_structure_calls_single)
  qed
qed

lemma get_citations_structure_reach:
  assumes "0 \<le> c" and "0 \<le> d" and "0 < c \<or> 0 < d"
  shows "fst (get_citations_structure q s c d {}) =
     (reach_links (cites_nbrs q) (nat c) s \<union> prod.swap ` reach_links (cited_nbrs q) (nat d) s,
      reach (cites_nbrs q) (nat c) s \<union> reach (cited_nbrs q) (nat d) s)"
proof -
  have c: "c = int (Suc (nat c - 1))" if "0 < c"
    using that by simp
  have d: "d = int (Suc (nat d - 1))" if "0 < d"
    using that by simp
  consider "0 < c" "0 < d" | "0 < c" "d = 0" | "c = 0" "0 < d"
    using assms by linarith
  then show ?thesis
  proof cases
    case 1
    then show ?thesis
      using get_citations_structure_cites [of q s "nat c - 1"]
        get_citations_structure_cited [of q s "nat d - 1"]
      by (simp add: get_citations_structure_split c [symmetric] d [symmetric])
  next
    case 2
    then show ?thesis
      using get_citations_structure_cites [of q s "nat c - 1" "{}"]
      by (simp add: c [symmetric] insert_absorb)
  next
    case 3
    then show ?thesis
      using get_citations_structure_cited [of q s "nat d - 1"]
      by (simp add: d [symmetric] insert_absorb)
  qed
qed


text \<open>
  C1. Refinement: for non-negative depths, not both zero, and the default empty
  visited set (every caller in the repository passes none), the links and nodes
  \<open>get_citations_structure\<close> returns are exactly the \<open>cites_depth\<close>-bounded
  citation neighbourhood in the citing direction together with the
  \<open>cited_depth\<close>-bounded one in the cited direction, links of the latter reversed
  so that each reads (citing, cited).
\<close>

theorem get_citations_structure_refines_reach:
  assumes "0 \<le> c" and "0 \<le> d" and "0 < c \<or> 0 < d"
  shows "fst (get_citations_structure q s c d {}) =
     (reach_links (cites_nbrs q) (nat c) s \<union> prod.swap ` reach_links (cited_nbrs q) (nat d) s,
      reach (cites_nbrs q) (nat c) s \<union> reach (cited_nbrs q) (nat d) s)"
  using assms by (rule get_citations_structure_reach)

text \<open>
  Witness: on a small graph (3A cites 3B, 3B cites 3C, 3D cites 3A, and the case
  law document 6X cites 3A) the expansion from 3A with depths (2, 1) is the two-hop
  citing neighbourhood plus the one-hop cited neighbourhood, 6X filtered out.
\<close>

theorem get_citations_structure_refines_reach_witness:
  "fst (get_citations_structure
          (graph_sparql [(''3A'', ''3B''), (''3B'', ''3C''), (''6X'', ''3A''), (''3D'', ''3A'')]) ''3A'' 2 1 {}) =
     ({(''3A'', ''3B''), (''3B'', ''3C''), (''3D'', ''3A'')}, {''3A'', ''3B'', ''3C'', ''3D''})"
  using get_citations_structure_refines_reach
      [of 2 1 "graph_sparql [(''3A'', ''3B''), (''3B'', ''3C''), (''6X'', ''3A''), (''3D'', ''3A'')]" "''3A''"]
  by (simp add: numeral_2_eq_2 cites_nbrs_def cited_nbrs_def graph_sparql_eval insert_commute)

text \<open>
  C2. Invariant of every result of \<open>get_citations_structure\<close>, whatever the lookup
  answers, the depths (negative ones included) and the visited set: the source is
  among the nodes, every link has both endpoints among the nodes, and every node other
  than the source is legislation (its CELEX id starts with \<open>'3'\<close>).
\<close>

theorem get_citations_structure_invariant:
  assumes "fst (get_citations_structure q s c d dr) = (links, nodes)"
  shows "s \<in> nodes \<and> endpoints links \<subseteq> nodes \<and> (\<forall>x\<in>nodes. x = s \<or> is_legislation x)"
  using get_citations_structure_ok [of s q c d dr] assms
  by (simp add: structure_ok_def links_closed_def)

theorem get_citations_structure_invariant_witness:
  "''3A'' \<in> {''3A'', ''3B''} \<and> endpoints {(''3A'', ''3B'')} \<subseteq> {''3A'', ''3B''} \<and> is_legislation ''3B''"
proof -
  have "fst (get_citations_structure (graph_sparql [(''3A'', ''3B''), (''6X'', ''3A'')]) ''3A'' 1 0 {}) =
          ({(''3A'', ''3B'')}, {''3A'', ''3B''})"
    by (simp add: get_citations_structure.simps graph_sparql_eval insert_commute)
  then have "''3A'' \<in> {''3A'', ''3B''} \<and> endpoints {(''3A'', ''3B'')} \<subseteq> {''3A'', ''3B''} \<and>
             (\<forall>x\<in>{''3A'', ''3B''}. x = ''3A'' \<or> is_legislation x)"
    by (rule get_citations_structure_invariant)
  then show ?thesis by simp
qed

text \<open>
  Witness: the expansion of 3A on the cycle 3A \<open>\<leftrightarrow>\<close> 3B with depths (2, 2).
\<close>

theorem get_citations_structure_lookups_witness:
  "list_all (\<lambda>(u, a, b). u \<in> snd (fst (get_citations_structure
                                  (graph_sparql [(''3A'', ''3B''), (''3B'', ''3A'')]) ''3A'' 2 2 {})) \<and>
                          0 \<le> a \<and> 0 \<le> b \<and> a + b \<le> 1)
     (snd (get_citations_structure (graph_sparql [(''3A'', ''3B''), (''3B'', ''3A'')]) ''3A'' 2 2 {}))"
  using get_citations_structure_lookups
      [of 2 2 "graph_sparql [(''3A'', ''3B''), (''3B'', ''3A'')]" "''3A''" "{}"]
  by (simp add: list_all_iff)

text \<open>
  C4. Equivalence: the loop over the targets of line 81 gives the same links and nodes
  in whatever order the Python set yields them (only the order of lookups differs).
\<close>

theorem expand_targets_order_independent:
  assumes "set ts = set ts'"
  shows "fst (expand_targets q s c d dr ts L N) = fst (expand_targets q s c d dr ts' L N)"
  using assms by (simp add: expand_targets_result)

theorem expand_targets_order_independent_witness:
  "fst (expand_targets (graph_sparql [(''3B'', ''3C''), (''3C'', ''3B'')]) ''3A'' 2 0 {''3A''}
          [''3B'', ''3C''] {} {''3A''}) =
   fst (expand_targets (graph_sparql [(''3B'', ''3C''), (''3C'', ''3B'')]) ''3A'' 2 0 {''3A''}
          [''3C'', ''3B''] {} {''3A''})"
  by (rule expand_targets_order_independent) auto

text \<open>
  C5. With both depths zero the code does not short-circuit: it still issues the
  lookup with hop bounds (0, 0) (the SPARQL path \<open>{1,0}\<close>), links every identifier
  returned to the source in the cited direction, and adds it as a node. The result is
  \<open>({}, {source})\<close>, as the spec requires, only when the endpoint returns no
  legislation for those bounds.
\<close>

theorem get_citations_structure_zero_depth:
  "get_citations_structure q s 0 0 dr =
     (((\<lambda>t. (t, s)) ` set (get_citations q s 0 0), insert s (set (get_citations q s 0 0))), [(s, 0, 0)])"
  by (simp add: get_citations_structure.simps [of q s 0 0 dr] expand_targets_zero)

end
