(* ===== verification/Aggregator.thy ===== *)
theory Aggregator
  imports Expander
begin

text \<open>
  MultiSourceAggregator, src/src/helper_functions.py.
  \<^item> \<open>get_citations_structure_multiple\<close> (lines 98--107) starts from the seed list
    as the node set and, for every seed whose id starts with \<open>'3'\<close>, in list order,
    merges the result of \<open>get_citations_structure\<close> called with the default empty
    visited set. The loop is \<open>structure_multiple_loop\<close>; lookups are returned in
    order as in Expander.thy.
  \<^item> \<open>get_citations_multiple\<close> (lines 46--63) makes one lookup per seed with the
    given bounds, appends the seed list, and returns the union of everything, or, with
    \<open>union=False\<close>, \<open>results[0].union(*results[1:])\<close> (more than one seed) or
    \<open>results[0]\<close> (one seed). For no seed the Python function returns the list
    \<open>sources\<close> itself (an empty list), modelled as the empty set.
\<close>

fun structure_multiple_loop ::
    "sparql \<Rightarrow> int \<Rightarrow> int \<Rightarrow> celex list \<Rightarrow> link set \<Rightarrow> celex set
     \<Rightarrow> (link set \<times> celex set) \<times> lookup_call list" where
  "structure_multiple_loop q cites_depth cited_depth [] links nodes = ((links, nodes), [])"
| "structure_multiple_loop q cites_depth cited_depth (source # sources) links nodes =
     (if startswith source ''3'' then
        (let ((new_links, new_nodes), calls1) =
               get_citations_structure q source cites_depth cited_depth {};
             (result, calls2) =
               structure_multiple_loop q cites_depth cited_depth sources
                 (links \<union> new_links) (nodes \<union> new_nodes)
         in (result, calls1 @ calls2))
      else structure_multiple_loop q cites_depth cited_depth sources links nodes)"

definition get_citations_structure_multiple ::
    "sparql \<Rightarrow> celex list \<Rightarrow> int \<Rightarrow> int \<Rightarrow> (link set \<times> celex set) \<times> lookup_call list" where
  "get_citations_structure_multiple q sources cites_depth cited_depth =
     structure_multiple_loop q cites_depth cited_depth sources {} (set sources)"

definition get_citations_multiple ::
    "sparql \<Rightarrow> celex list \<Rightarrow> int \<Rightarrow> int \<Rightarrow> bool \<Rightarrow> celex set" where
  "get_citations_multiple q sources cites_depth cited_depth union_mode =
     (let results = map (\<lambda>source. set (get_citations q source cites_depth cited_depth)) sources
                    @ [set sources]
      in if union_mode then \<Union> (set results)
         else if 1 < length sources then hd results \<union> \<Union> (set (tl results))
         else hd results)"

lemma structure_multiple_loop_result:
  "fst (structure_multiple_loop q c d ss L N) =
     (L \<union> (\<Union>s\<in>{s \<in> set ss. startswith s ''3''}. fst (fst (get_citations_structure q s c d {}))),
      N \<union> (\<Union>s\<in>{s \<in> set ss. startswith s ''3''}. snd (fst (get_citations_structure q s c d {}))))"
  by (induction ss arbitrary: L N) (auto simp: split_def Let_def)

lemma structure_multiple_loop_calls:
  "snd (structure_multiple_loop q c d ss L N) =
     concat (map (\<lambda>s. snd (get_citations_structure q s c d {})) (filter (\<lambda>s. startswith s ''3'') ss))"
  by (induction ss arbitrary: L N) (simp_all add: split_def Let_def)


lemma get_citations_structure_multiple_result:
  "fst (get_citations_structure_multiple q sources c d) =
     ((\<Union>s\<in>{s \<in> set sources. startswith s ''3''}. fst (fst (get_citations_structure q s c d {}))),
      set sources \<union> (\<Union>s\<in>{s \<in> set sources. startswith s ''3''}. snd (fst (get_citations_structure q s c d {}))))"
  by (simp add: get_citations_structure_multiple_def structure_multiple_loop_result)

text \<open>
  C7. Invariant of the multi-seed traversal: every seed is a node, whether or not it is
  legislation and whether or not any link was found; every link has both endpoints
  among the nodes; every node that is not a seed is legislation.
\<close>

theorem get_citations_structure_multiple_invariant:
  assumes "fst (get_citations_structure_multiple q sources c d) = (links, nodes)"
  shows "set sources \<subseteq> nodes \<and> endpoints links \<subseteq> nodes \<and>
         (\<forall>x\<in>nodes. x \<in> set sources \<or> is_legislation x)"
proof -
  let ?R = "\<lambda>s. fst (get_citations_structure q s c d {})"
  have ok: "structure_ok s (?R s)" for s
    by (rule get_citations_structure_ok)
  from assms have links: "links = (\<Union>s\<in>{s \<in> set sources. startswith s ''3''}. fst (?R s))"
    and nodes: "nodes = set sources \<union> (\<Union>s\<in>{s \<in> set sources. startswith s ''3''}. snd (?R s))"
    by (simp_all add: get_citations_structure_multiple_result)
  have "endpoints links \<subseteq> nodes"
    using ok by (fastforce simp: links nodes endpoints_UNION structure_ok_def links_closed_def)
  moreover have "\<forall>x\<in>nodes. x \<in> set sources \<or> is_legislation x"
    using ok by (fastforce simp: nodes structure_ok_def)
  ultimately show ?thesis by (simp add: nodes)
qed

theorem get_citations_structure_multiple_invariant_witness:
  "''6X'' \<in> {''3A'', ''3B'', ''6X''} \<and> endpoints {(''3A'', ''3B'')} \<subseteq> {''3A'', ''3B'', ''6X''} \<and>
   is_legislation ''3B''"
proof -
  have "fst (get_citations_structure_multiple (graph_sparql [(''3A'', ''3B''), (''6X'', ''3A'')])
               [''3A'', ''6X''] 1 0) = ({(''3A'', ''3B'')}, {''3A'', ''3B'', ''6X''})"
    by (simp add: get_citations_structure_multiple_def get_citations_structure.simps
        graph_sparql_eval insert_commute)
  then have "set [''3A'', ''6X''] \<subseteq> {''3A'', ''3B'', ''6X''} \<and>
             endpoints {(''3A'', ''3B'')} \<subseteq> {''3A'', ''3B'', ''6X''} \<and>
             (\<forall>x\<in>{''3A'', ''3B'', ''6X''}. x \<in> set [''3A'', ''6X''] \<or> is_legislation x)"
    by (rule get_citations_structure_multiple_invariant)
  then show ?thesis by simp
qed

text \<open>
  C8. Refinement of the multi-seed traversal: for non-negative depths not both zero,
  the links are the union over the legislation seeds of their bounded citing and
  cited neighbourhood links, and the nodes are the seeds together with those
  neighbourhoods.
\<close>

theorem get_citations_structure_multiple_refines_reach:
  assumes "0 \<le> c" and "0 \<le> d" and "0 < c \<or> 0 < d"
  shows "fst (get_citations_structure_multiple q sources c d) =
     ((\<Union>s\<in>{s \<in> set sources. startswith s ''3''}.
         reach_links (cites_nbrs q) (nat c) s \<union> prod.swap ` reach_links (cited_nbrs q) (nat d) s),
      set sources \<union> (\<Union>s\<in>{s \<in> set sources. startswith s ''3''}.
         reach (cites_nbrs q) (nat c) s \<union> reach (cited_nbrs q) (nat d) s))"
  using get_citations_structure_reach [OF assms]
  by (simp add: get_citations_structure_multiple_result)

theorem get_citations_structure_multiple_refines_reach_witness:
  "((\<Union>s\<in>{s \<in> set [''3A'', ''6X'']. startswith s ''3''}.
        reach_links (cites_nbrs (graph_sparql [(''3A'', ''3B''), (''3B'', ''3C'')])) 2 s \<union>
        prod.swap ` reach_links (cited_nbrs (graph_sparql [(''3A'', ''3B''), (''3B'', ''3C'')])) 0 s),
     set [''3A'', ''6X''] \<union> (\<Union>s\<in>{s \<in> set [''3A'', ''6X'']. startswith s ''3''}.
        reach (cites_nbrs (graph_sparql [(''3A'', ''3B''), (''3B'', ''3C'')])) 2 s \<union>
        reach (cited_nbrs (graph_sparql [(''3A'', ''3B''), (''3B'', ''3C'')])) 0 s)) =
   ({(''3A'', ''3B''), (''3B'', ''3C'')}, {''3A'', ''3B'', ''3C'', ''6X''})"
proof -
  have "fst (get_citations_structure_multiple (graph_sparql [(''3A'', ''3B''), (''3B'', ''3C'')])
               [''3A'', ''6X''] 2 0) = ({(''3A'', ''3B''), (''3B'', ''3C'')}, {''3A'', ''3B'', ''3C'', ''6X''})"
    by (simp add: get_citations_structure_multiple_def get_citations_structure.simps
        graph_sparql_eval insert_commute)
  moreover have "fst (get_citations_structure_multiple (graph_sparql [(''3A'', ''3B''), (''3B'', ''3C'')])
               [''3A'', ''6X''] 2 0) =
     ((\<Union>s\<in>{s \<in> set [''3A'', ''6X'']. startswith s ''3''}.
        reach_links (cites_nbrs (graph_sparql [(''3A'', ''3B''), (''3B'', ''3C'')])) (nat 2) s \<union>
        prod.swap ` reach_links (cited_nbrs (graph_sparql [(''3A'', ''3B''), (''3B'', ''3C'')])) (nat 0) s),
      set [''3A'', ''6X''] \<union> (\<Union>s\<in>{s \<in> set [''3A'', ''6X'']. startswith s ''3''}.
        reach (cites_nbrs (graph_sparql [(''3A'', ''3B''), (''3B'', ''3C'')])) (nat 2) s \<union>
        reach (cited_nbrs (graph_sparql [(''3A'', ''3B''), (''3B'', ''3C'')])) (nat 0) s))"
    by (rule get_citations_structure_multiple_refines_reach) simp_all
  ultimately show ?thesis by simp
qed

text \<open>
  C9. Ordering of the lookups across seeds: the traversal issues exactly the lookups
  of one \<open>get_citations_structure\<close> per legislation seed, seed after seed in list
  order; a seed that is not legislation issues none.
\<close>

theorem get_citations_structure_multiple_lookups:
  "snd (get_citations_structure_multiple q sources c d) =
     concat (map (\<lambda>s. snd (get_citations_structure q s c d {})) (filter (\<lambda>s. startswith s ''3'') sources))"
  by (simp add: get_citations_structure_multiple_def structure_multiple_loop_calls)

text \<open>
  C10. With \<open>union=False\<close> and more than one seed the function is documented to
  return the documents common to all seeds, but line 61 computes
  \<open>start_set.union(*results[1:])\<close>: the result is the same as with \<open>union=True\<close>.
\<close>

theorem get_citations_multiple_no_intersection:
  assumes "1 < length sources"
  shows "get_citations_multiple q sources c d False = get_citations_multiple q sources c d True"
proof -
  obtain s s' ss where "sources = s # s' # ss"
    using assms by (cases sources rule: remdups_adj.cases) auto
  then show ?thesis
    by (simp add: get_citations_multiple_def Let_def)
qed

theorem get_citations_multiple_no_intersection_witness:
  "get_citations_multiple (graph_sparql [(''3A'', ''3C''), (''3B'', ''3D'')]) [''3A'', ''3B''] 1 0 False =
     {''3A'', ''3B'', ''3C'', ''3D''}"
proof -
  have "get_citations_multiple (graph_sparql [(''3A'', ''3C''), (''3B'', ''3D'')]) [''3A'', ''3B''] 1 0 False =
        get_citations_multiple (graph_sparql [(''3A'', ''3C''), (''3B'', ''3D'')]) [''3A'', ''3B''] 1 0 True"
    by (rule get_citations_multiple_no_intersection) simp
  then show ?thesis
    by (simp add: get_citations_multiple_def graph_sparql_eval insert_commute)
qed

text \<open>
  C11. With \<open>union=True\<close> the result is the seeds together with the legislation
  each seed's lookup returns for the given bounds.
\<close>

theorem get_citations_multiple_union:
  "get_citations_multiple q sources c d True =
     set sources \<union> (\<Union>s\<in>set sources. {t \<in> set (q s c d). is_legislation t})"
  by (auto simp: get_citations_multiple_def set_get_citations)

text \<open>
  C12. With \<open>union=False\<close> and a single seed the result is \<open>results[0]\<close>, the
  lookup of that seed alone: the seed appended on line 54 "to ensure that source nodes
  are included" is dropped.
\<close>

theorem get_citations_multiple_single_drops_seed:
  "get_citations_multiple q [s] c d False = set (get_citations q s c d)"
  by (simp add: get_citations_multiple_def)

end
