(* ===== verification/Stats.thy ===== *)
theory Stats
  imports Prelude
begin

text \<open>
  GraphStatsEvaluator: \<open>do_stats\<close> of src/src/helper_functions.py (lines 110--123).
  The reference set is the global \<open>expert_docs\<close>, which no file of the repository
  defines (a \<open>NameError\<close> on the first call); it is a parameter here, as the spec
  asks. Python floats are modelled as reals: the three divisions are exact, rounding
  is not modelled. Each division by zero raises \<open>ZeroDivisionError\<close>, in the order
  the code evaluates them: precision (empty \<open>nodes\<close>), then recall (empty
  \<open>expert_docs\<close>), then F1 (precision + recall = 0, that is no common node).
  The printing controlled by \<open>print_res\<close> has no effect on the result and is not
  modelled.
\<close>

definition do_stats :: "celex set \<Rightarrow> celex set \<Rightarrow> py_error + real \<times> real \<times> real" where
  "do_stats expert_docs nodes =
     (if card nodes = 0 then Inl ZeroDivisionError
      else
        let precision = real (card (nodes \<inter> expert_docs)) / real (card nodes)
        in if card expert_docs = 0 then Inl ZeroDivisionError
           else
             let recall = real (card (nodes \<inter> expert_docs)) / real (card expert_docs)
             in if precision + recall = 0 then Inl ZeroDivisionError
                else Inr (precision, recall, 2 * (precision * recall) / (precision + recall)))"

lemma do_stats_Inr:
  assumes "do_stats E N = Inr (p, r, f)"
  shows "card N \<noteq> 0 \<and> card E \<noteq> 0 \<and> p = real (card (N \<inter> E)) / real (card N) \<and>
         r = real (card (N \<inter> E)) / real (card E) \<and> p + r \<noteq> 0 \<and> f = 2 * (p * r) / (p + r)"
  using assms by (auto simp: do_stats_def Let_def split: if_splits)

lemma card_inter_le_left: "finite N \<Longrightarrow> card (N \<inter> E) \<le> card N"
  by (simp add: card_mono)

lemma card_inter_le_right: "finite E \<Longrightarrow> card (N \<inter> E) \<le> card E"
  by (simp add: card_mono)

lemma harmonic_mean_le_one:
  fixes p r :: real
  assumes "0 \<le> p" "p \<le> 1" "0 \<le> r" "r \<le> 1" "p + r \<noteq> 0"
  shows "0 \<le> 2 * (p * r) / (p + r) \<and> 2 * (p * r) / (p + r) \<le> 1"
proof
  show "0 \<le> 2 * (p * r) / (p + r)" using assms by simp
next
  have "2 * (p * r) \<le> p + r"
  proof -
    have "p * r \<le> p" using assms by (simp add: mult_left_le)
    moreover have "p * r \<le> r" using assms by (simp add: mult_left_le_one_le)
    ultimately show ?thesis by simp
  qed
  moreover have "0 < p + r" using assms by simp
  ultimately show "2 * (p * r) / (p + r) \<le> 1" by simp
qed


lemma f1_dice:
  fixes i n e :: real
  assumes "0 < i" and "0 < n" and "0 < e"
  shows "2 * (i / n * (i / e)) / (i / n + i / e) = 2 * i / (n + e)"
proof -
  have "i / n + i / e = i * (n + e) / (n * e)"
    using assms by (simp add: field_simps)
  then have "2 * (i / n * (i / e)) / (i / n + i / e) = (2 * i * i) / (i * (n + e))"
    using assms by (simp add: field_simps)
  also have "\<dots> = 2 * i / (n + e)"
    using assms by simp
  finally show ?thesis .
qed

lemma do_stats_closed_form:
  assumes "finite N" and "finite E" and "N \<inter> E \<noteq> {}"
  shows "do_stats E N =
           Inr (real (card (N \<inter> E)) / real (card N), real (card (N \<inter> E)) / real (card E),
                2 * real (card (N \<inter> E)) / (real (card N) + real (card E)))"
proof -
  have i: "0 < card (N \<inter> E)"
    using assms by (simp add: card_gt_0_iff)
  have n: "0 < card N" and e: "0 < card E"
    using assms by (auto simp: card_gt_0_iff)
  let ?i = "real (card (N \<inter> E))" and ?n = "real (card N)" and ?e = "real (card E)"
  have ri: "0 < ?i" and rn: "0 < ?n" and re: "0 < ?e"
    using i n e by simp_all
  then have "2 * (?i / ?n * (?i / ?e)) / (?i / ?n + ?i / ?e) = 2 * ?i / (?n + ?e)"
    by (rule f1_dice)
  moreover have "0 < ?i / ?n + ?i / ?e"
    using ri rn re by (intro add_pos_pos divide_pos_pos)
  ultimately show ?thesis
    using n e by (simp add: do_stats_def Let_def)
qed

lemma do_stats_Inr_bounds:
  assumes "finite N" and "finite E" and "do_stats E N = Inr (p, r, f)"
  shows "0 < p \<and> p \<le> 1 \<and> 0 < r \<and> r \<le> 1 \<and> 0 < f \<and> f \<le> 1"
proof -
  from assms(3) have ok: "card N \<noteq> 0" "card E \<noteq> 0" "p + r \<noteq> 0"
    and p: "p = real (card (N \<inter> E)) / real (card N)"
    and r: "r = real (card (N \<inter> E)) / real (card E)"
    and f: "f = 2 * (p * r) / (p + r)"
    by (auto dest: do_stats_Inr)
  have "p \<le> 1" using p ok card_inter_le_left [OF assms(1), of E] by (simp add: divide_le_eq_1)
  moreover have "r \<le> 1" using r ok card_inter_le_right [OF assms(2), of N] by (simp add: divide_le_eq_1)
  moreover have "0 < card (N \<inter> E)" using ok p r by (auto simp: card_gt_0_iff)
  then have "0 < p" and "0 < r" using p r ok by simp_all
  moreover have "f \<le> 1" using harmonic_mean_le_one [of p r] f ok \<open>p \<le> 1\<close> \<open>r \<le> 1\<close> \<open>0 < p\<close> \<open>0 < r\<close>
    by simp
  moreover have "0 < f" using f \<open>0 < p\<close> \<open>0 < r\<close> by simp
  ultimately show ?thesis by simp
qed

text \<open>
  C13. Bounds: whenever \<open>do_stats\<close> returns, precision, recall and F1 lie in
  \<open>(0, 1]\<close>.
\<close>

theorem do_stats_bounds:
  assumes "finite N" and "finite E" and "do_stats E N = Inr (p, r, f)"
  shows "0 < p \<and> p \<le> 1 \<and> 0 < r \<and> r \<le> 1 \<and> 0 < f \<and> f \<le> 1"
  using assms by (rule do_stats_Inr_bounds)

theorem do_stats_bounds_witness:
  "(0::real) < 1 / 2 \<and> (1::real) / 2 \<le> 1"
proof -
  have "do_stats {''3A'', ''3B''} {''3A'', ''3C''} = Inr (1 / 2, 1 / 2, 1 / 2)"
    by (simp add: do_stats_def Let_def)
  then have "0 < (1::real) / 2 \<and> (1::real) / 2 \<le> 1 \<and> 0 < (1::real) / 2 \<and> (1::real) / 2 \<le> 1 \<and>
             0 < (1::real) / 2 \<and> (1::real) / 2 \<le> 1"
    by (intro do_stats_bounds) simp_all
  then show ?thesis by simp
qed

text \<open>
  C14. Errors: on finite sets \<open>do_stats\<close> fails exactly when the found set and the
  reference set share no document (which covers either being empty), and the only
  error it raises is \<open>ZeroDivisionError\<close>; otherwise F1 is the Dice coefficient
  \<open>2 |N \<inter> E| / (|N| + |E|)\<close>.
\<close>

theorem do_stats_error:
  assumes "finite N" and "finite E"
  shows "(do_stats E N = Inl ZeroDivisionError \<longleftrightarrow> N \<inter> E = {}) \<and>
         (\<forall>e. do_stats E N = Inl e \<longrightarrow> e = ZeroDivisionError) \<and>
         (N \<inter> E \<noteq> {} \<longrightarrow> do_stats E N =
            Inr (real (card (N \<inter> E)) / real (card N), real (card (N \<inter> E)) / real (card E),
                 2 * real (card (N \<inter> E)) / (real (card N) + real (card E))))"
proof (cases "N \<inter> E = {}")
  case True
  then have "do_stats E N = Inl ZeroDivisionError"
    by (auto simp: do_stats_def Let_def)
  with True show ?thesis by simp
next
  case False
  with do_stats_closed_form [OF assms] show ?thesis by simp
qed

theorem do_stats_error_witness:
  "do_stats {''3A''} {''3B''} = Inl ZeroDivisionError \<and>
   do_stats {''3A'', ''3B''} {''3A''} = Inr (1, 1 / 2, 2 / 3)"
proof -
  have "do_stats {''3A''} {''3B''} = Inl ZeroDivisionError"
    using do_stats_error [of "{''3B''}" "{''3A''}"] by simp
  moreover have "do_stats {''3A'', ''3B''} {''3A''} = Inr (1, 1 / 2, 2 / 3)"
    using do_stats_error [of "{''3A''}" "{''3A'', ''3B''}"] by simp
  ultimately show ?thesis ..
qed

end
