(* ===== verification/Sweep.thy ===== *)
theory Sweep
  imports Aggregator Stats
begin

text \<open>
  DepthSweepRunner: \<open>get_indv_stats\<close> of src/src/main.py (lines 27--36). For every
  \<open>i\<close> and then every \<open>j\<close> in \<open>range(range_limit)\<close> it scores
  \<open>get_citations_multiple(sources, i, j)\<close> (union mode) with \<open>do_stats\<close> and
  prints one line, or a skip message when \<open>do_stats\<close> raises
  \<open>ZeroDivisionError\<close>; any other exception would leave the loops. The printed
  lines are the output list (\<open>sweep_line\<close>). The function reads \<open>sources\<close>, a
  name its body never binds (its parameter is \<open>source\<close>); as for \<open>expert_docs\<close>
  the intended seed list and reference set are parameters. \<open>range(k)\<close> on a Python
  int is \<open>[0..k - 1]\<close>, empty for \<open>k \<le> 0\<close>.
\<close>

datatype sweep_line = Scored int int real real real | Skipped

definition sweep_cell ::
    "sparql \<Rightarrow> celex set \<Rightarrow> celex list \<Rightarrow> int \<Rightarrow> int \<Rightarrow> py_error + sweep_line" where
  "sweep_cell q expert_docs sources i j =
     (case do_stats expert_docs (get_citations_multiple q sources i j True) of
        Inl ZeroDivisionError \<Rightarrow> Inr Skipped
      | Inl e \<Rightarrow> Inl e
      | Inr (precision, recall, f1) \<Rightarrow> Inr (Scored i j precision recall f1))"

fun sweep_inner ::
    "sparql \<Rightarrow> celex set \<Rightarrow> celex list \<Rightarrow> int \<Rightarrow> int list \<Rightarrow> py_error + sweep_line list" where
  "sweep_inner q expert_docs sources i [] = Inr []"
| "sweep_inner q expert_docs sources i (j # js) =
     (case sweep_cell q expert_docs sources i j of
        Inl e \<Rightarrow> Inl e
      | Inr line \<Rightarrow>
          (case sweep_inner q expert_docs sources i js of
             Inl e \<Rightarrow> Inl e
           | Inr lines \<Rightarrow> Inr (line # lines)))"

fun sweep_outer ::
    "sparql \<Rightarrow> celex set \<Rightarrow> celex list \<Rightarrow> int list \<Rightarrow> int list \<Rightarrow> py_error + sweep_line list" where
  "sweep_outer q expert_docs sources [] js = Inr []"
| "sweep_outer q expert_docs sources (i # is) js =
     (case sweep_inner q expert_docs sources i js of
        Inl e \<Rightarrow> Inl e
      | Inr lines \<Rightarrow>
          (case sweep_outer q expert_docs sources is js of
             Inl e \<Rightarrow> Inl e
           | Inr rest \<Rightarrow> Inr (lines @ rest)))"

definition get_indv_stats ::
    "sparql \<Rightarrow> celex set \<Rightarrow> celex list \<Rightarrow> int \<Rightarrow> py_error + sweep_line list" where
  "get_indv_stats q expert_docs sources range_limit =
     sweep_outer q expert_docs sources [0..range_limit - 1] [0..range_limit - 1]"

text \<open>What one cell prints, when no other exception than the caught one can occur.\<close>

definition cell_line :: "sparql \<Rightarrow> celex set \<Rightarrow> celex list \<Rightarrow> int \<Rightarrow> int \<Rightarrow> sweep_line" where
  "cell_line q expert_docs sources i j =
     (case do_stats expert_docs (get_citations_multiple q sources i j True) of
        Inl _ \<Rightarrow> Skipped
      | Inr (precision, recall, f1) \<Rightarrow> Scored i j precision recall f1)"

lemma do_stats_only_zero_division: "do_stats E N = Inl e \<Longrightarrow> e = ZeroDivisionError"
  by (auto simp: do_stats_def Let_def split: if_splits)

lemma sweep_cell_cell_line: "sweep_cell q E S i j = Inr (cell_line q E S i j)"
  by (auto simp: sweep_cell_def cell_line_def dest: do_stats_only_zero_division
      split: sum.split py_error.split)

lemma sweep_inner_eq: "sweep_inner q E S i js = Inr (map (cell_line q E S i) js)"
  by (induction js) (simp_all add: sweep_cell_cell_line)

lemma sweep_outer_eq:
  "sweep_outer q E S is js = Inr (concat (map (\<lambda>i. map (cell_line q E S i) js) is))"
  by (induction "is") (simp_all add: sweep_inner_eq)

lemma finite_get_citations_multiple: "finite (get_citations_multiple q S c d True)"
  by (simp add: get_citations_multiple_def Let_def)

lemma get_citations_multiple_seeds: "set S \<subseteq> get_citations_multiple q S c d True"
  by (auto simp: get_citations_multiple_def)


lemma cell_line_Skipped:
  assumes "finite E"
  shows "cell_line q E S i j = Skipped \<longleftrightarrow> get_citations_multiple q S i j True \<inter> E = {}"
proof (cases "get_citations_multiple q S i j True \<inter> E = {}")
  case True
  then show ?thesis
    by (auto simp: cell_line_def do_stats_def Let_def)
next
  case False
  with do_stats_closed_form [OF finite_get_citations_multiple assms] show ?thesis
    by (simp add: cell_line_def)
qed

text \<open>
  C15. The sweep never raises (the only exception \<open>do_stats\<close> can raise is the one
  caught) and prints exactly one line per cell of the grid
  \<open>range(range_limit) \<times> range(range_limit)\<close>, row by row: \<open>(range_limit)\<^sup>2\<close>
  lines for a non-negative limit.
\<close>

theorem get_indv_stats_lines:
  "get_indv_stats q E S n = Inr (concat (map (\<lambda>i. map (cell_line q E S i) [0..n - 1]) [0..n - 1])) \<and>
   length (concat (map (\<lambda>i. map (cell_line q E S i) [0..n - 1]) [0..n - 1])) = nat n * nat n"
  by (simp add: get_indv_stats_def sweep_outer_eq length_concat o_def sum_list_triv)

text \<open>
  C16. A cell of the sweep (\<open>sweep_cell\<close>, lines 32--36) is skipped, returning
  the skip line rather than raising or scoring, exactly when the documents found at
  its depths share nothing with the reference set. The found set always contains the
  seeds, so a seed that is itself a reference document makes every cell of the sweep
  scored; an empty found set, the spec's example of a skipped cell, arises only for
  an empty seed list.
\<close>

theorem sweep_cell_skipped:
  assumes "finite E"
  shows "(sweep_cell q E S i j = Inr Skipped \<longleftrightarrow> get_citations_multiple q S i j True \<inter> E = {}) \<and>
         (set S \<inter> E \<noteq> {} \<longrightarrow> sweep_cell q E S i j \<noteq> Inr Skipped) \<and>
         (S \<noteq> [] \<longrightarrow> get_citations_multiple q S i j True \<noteq> {})"
  using cell_line_Skipped [OF assms] get_citations_multiple_seeds [of S q i j]
  by (auto simp: sweep_cell_cell_line)

theorem sweep_cell_skipped_witness:
  "sweep_cell (graph_sparql []) {''3B''} [''3A''] 0 0 = Inr Skipped \<and>
   sweep_cell (graph_sparql []) {''3A''} [''3A''] 0 0 \<noteq> Inr Skipped"
proof -
  have "get_citations_multiple (graph_sparql []) [''3A''] 0 0 True = {''3A''}"
    by (simp add: get_citations_multiple_def graph_sparql_eval)
  then show ?thesis
    using sweep_cell_skipped [of "{''3B''}" "graph_sparql []" "[''3A'']" 0 0]
      sweep_cell_skipped [of "{''3A''}" "graph_sparql []" "[''3A'']" 0 0]
    by simp
qed

text \<open>
  C17. Every scored line of the sweep is for a cell of the grid and carries precision,
  recall and F1 in \<open>(0, 1]\<close>.
\<close>

theorem get_indv_stats_scored_bounds:
  assumes "finite E" and "get_indv_stats q E S n = Inr lines"
    and "Scored i j p r f \<in> set lines"
  shows "0 \<le> i \<and> i < n \<and> 0 \<le> j \<and> j < n \<and>
         0 < p \<and> p \<le> 1 \<and> 0 < r \<and> r \<le> 1 \<and> 0 < f \<and> f \<le> 1"
proof -
  from assms(2,3) obtain i' j' where grid: "i' \<in> set [0..n - 1]" "j' \<in> set [0..n - 1]"
    and line: "cell_line q E S i' j' = Scored i j p r f"
    by (auto simp: get_indv_stats_def sweep_outer_eq)
  from line have "i = i'" "j = j'"
    and st: "do_stats E (get_citations_multiple q S i j True) = Inr (p, r, f)"
    by (auto simp: cell_line_def split: sum.splits)
  have "0 < p \<and> p \<le> 1 \<and> 0 < r \<and> r \<le> 1 \<and> 0 < f \<and> f \<le> 1"
    using finite_get_citations_multiple assms(1) st by (rule do_stats_Inr_bounds)
  with grid \<open>i = i'\<close> \<open>j = j'\<close> show ?thesis by auto
qed

theorem get_indv_stats_scored_bounds_witness:
  "(0::int) \<le> 0 \<and> (0::int) < 1 \<and> (0::real) < 1 \<and> (1::real) \<le> 1"
proof -
  have st: "get_indv_stats (graph_sparql []) {''3A''} [''3A''] 1 = Inr [Scored 0 0 1 1 1]"
    by (simp add: get_indv_stats_def sweep_outer_eq cell_line_def do_stats_def
        get_citations_multiple_def graph_sparql_eval)
  have "0 \<le> (0::int) \<and> (0::int) < 1 \<and> 0 \<le> (0::int) \<and> (0::int) < 1 \<and>
             0 < (1::real) \<and> (1::real) \<le> 1 \<and> 0 < (1::real) \<and> (1::real) \<le> 1 \<and> 0 < (1::real) \<and> (1::real) \<le> 1"
    by (rule get_indv_stats_scored_bounds [OF _ st]) simp_all
  then show ?thesis by simp
qed

end
