(* ===== verification/Network.thy ===== *)
theory Network
  imports Aggregator Stats
begin

text \<open>
  DegreeFilter: \<open>generate_network\<close> of src/src/main.py (lines 49--64). The links of
  a two-by-two multi-seed traversal are added to an undirected \<open>networkx.Graph\<close>:
  its nodes are the endpoints of the links (a seed with no link is not a node), an
  edge and its reverse are one edge, and the degree of a node is its number of
  neighbours other than itself plus 2 for a self-loop, as networkx counts it. With
  \<open>filter_network\<close> the nodes of degree at least \<open>filter_degree\<close> are kept, else
  all nodes; \<open>do_stats\<close> is applied to the result and then \<open>nx.write_gex\<close> is
  called, an attribute the networkx module does not have (the writer is
  \<open>write_gexf\<close>): the function raises \<open>AttributeError\<close> there and never returns
  its result. Writing the file itself is not modelled.
\<close>

definition degree :: "link set \<Rightarrow> celex \<Rightarrow> nat" where
  "degree links n =
     card (Set.filter (\<lambda>m. m \<noteq> n \<and> ((n, m) \<in> links \<or> (m, n) \<in> links)) (endpoints links))
     + (if (n, n) \<in> links then 2 else 0)"

definition degree_filter :: "link set \<Rightarrow> int \<Rightarrow> bool \<Rightarrow> celex set" where
  "degree_filter links filter_degree filter_network =
     (if filter_network then Set.filter (\<lambda>n. filter_degree \<le> int (degree links n)) (endpoints links)
      else endpoints links)"

definition generate_network ::
    "sparql \<Rightarrow> celex set \<Rightarrow> celex list \<Rightarrow> int \<Rightarrow> bool \<Rightarrow> (py_error + celex set) \<times> lookup_call list" where
  "generate_network q expert_docs sources filter_degree filter_network =
     (let ((links, _), calls) = get_citations_structure_multiple q sources 2 2;
          filtered = degree_filter links filter_degree filter_network
      in (case do_stats expert_docs filtered of
            Inl e \<Rightarrow> Inl e
          | Inr _ \<Rightarrow> Inl AttributeError, calls))"

lemma degree_swap: "degree (prod.swap ` links) n = degree links n"
proof -
  have "Set.filter (\<lambda>m. m \<noteq> n \<and> ((n, m) \<in> prod.swap ` links \<or> (m, n) \<in> prod.swap ` links))
          (endpoints (prod.swap ` links)) =
        Set.filter (\<lambda>m. m \<noteq> n \<and> ((n, m) \<in> links \<or> (m, n) \<in> links)) (endpoints links)"
    by (auto simp: endpoints_swap)
  moreover have "(n, n) \<in> prod.swap ` links \<longleftrightarrow> (n, n) \<in> links"
    by simp
  ultimately show ?thesis by (simp add: degree_def)
qed

lemma finite_endpoints: "finite links \<Longrightarrow> finite (endpoints links)"
  by (simp add: endpoints_def)

lemma degree_pos:
  assumes "finite links" and "n \<in> endpoints links"
  shows "1 \<le> degree links n"
proof (cases "(n, n) \<in> links")
  case True
  then show ?thesis by (simp add: degree_def)
next
  case False
  from assms(2) have "\<exists>m. (n, m) \<in> links \<or> (m, n) \<in> links"
    by (force simp: endpoints_def)
  then obtain m where m: "(n, m) \<in> links \<or> (m, n) \<in> links" ..
  with False have "m \<noteq> n" by auto
  with m have "m \<in> Set.filter (\<lambda>m. m \<noteq> n \<and> ((n, m) \<in> links \<or> (m, n) \<in> links)) (endpoints links)"
    by auto
  moreover have "finite (Set.filter (\<lambda>m. m \<noteq> n \<and> ((n, m) \<in> links \<or> (m, n) \<in> links)) (endpoints links))"
    using assms(1) by (simp add: finite_endpoints)
  ultimately have "0 < card (Set.filter (\<lambda>m. m \<noteq> n \<and> ((n, m) \<in> links \<or> (m, n) \<in> links)) (endpoints links))"
    by (auto simp: card_gt_0_iff)
  then show ?thesis by (simp add: degree_def)
qed


text \<open>
  C18. Every node of the graph has degree at least 1, so a threshold of at most 1,
  like disabling the filter, keeps all graph nodes: the endpoints of the links, which
  never include a seed without links.
\<close>

theorem degree_filter_all_nodes:
  assumes "finite links" and "filter_degree \<le> 1 \<or> \<not> filter_network"
  shows "degree_filter links filter_degree filter_network = endpoints links"
  using assms degree_pos [OF assms(1)] by (force simp: degree_filter_def)

theorem degree_filter_all_nodes_witness:
  "degree_filter {(''3A'', ''3B'')} 1 True = {''3A'', ''3B''}"
proof -
  have "degree_filter {(''3A'', ''3B'')} 1 True = endpoints {(''3A'', ''3B'')}"
    by (rule degree_filter_all_nodes) simp_all
  then show ?thesis by simp
qed

text \<open>
  C19. The filter ignores the direction of citations: reversing every link gives the
  same filtered set.
\<close>

theorem degree_filter_undirected:
  "degree_filter (prod.swap ` links) filter_degree filter_network =
   degree_filter links filter_degree filter_network"
  by (simp add: degree_filter_def degree_swap endpoints_swap)

lemma finite_multiple_links:
  "finite (fst (fst (get_citations_structure_multiple q sources 2 2)))"
proof -
  have "finite (cites_nbrs q u)" "finite (cited_nbrs q u)" for u
    by (simp_all add: cites_nbrs_def cited_nbrs_def)
  then show ?thesis
    using get_citations_structure_reach [of 2 2 q]
    by (simp add: get_citations_structure_multiple_result finite_reach_links)
qed

text \<open>
  C20. Which exception \<open>generate_network\<close> raises: it never returns the filtered
  node set. When the degree-filtered nodes of the two-by-two traversal miss the
  reference set, \<open>do_stats\<close> raises \<open>ZeroDivisionError\<close> (line 58 or 61) before
  the graph is written; otherwise the call of the nonexistent \<open>nx.write_gex\<close> on
  line 63 raises \<open>AttributeError\<close>.
\<close>

theorem generate_network_raises:
  assumes "finite expert_docs"
  shows "fst (generate_network q expert_docs sources filter_degree filter_network) =
     (if degree_filter (fst (fst (get_citations_structure_multiple q sources 2 2))) filter_degree filter_network
           \<inter> expert_docs = {}
      then Inl ZeroDivisionError else Inl AttributeError)"
proof -
  let ?F = "degree_filter (fst (fst (get_citations_structure_multiple q sources 2 2))) filter_degree filter_network"
  have "finite ?F"
    using finite_multiple_links [of q sources]
    by (simp add: degree_filter_def finite_endpoints)
  then show ?thesis
    using do_stats_closed_form [OF _ assms, of ?F]
    by (auto simp: generate_network_def split_def Let_def do_stats_def)
qed

theorem generate_network_raises_witness:
  "fst (generate_network (graph_sparql [(''3A'', ''3B'')]) {''3B''} [''3A''] 2 False) = Inl AttributeError \<and>
   fst (generate_network (graph_sparql [(''3A'', ''3B'')]) {''3C''} [''3A''] 2 False) = Inl ZeroDivisionError"
proof -
  have L: "fst (fst (get_citations_structure_multiple (graph_sparql [(''3A'', ''3B'')]) [''3A''] 2 2)) =
             {(''3A'', ''3B'')}"
  proof -
    have "{s \<in> set [''3A'']. startswith s ''3''} = {''3A''}"
      by (auto simp: startswith_def)
    then show ?thesis
      by (simp add: get_citations_structure_multiple_result get_citations_structure.simps graph_sparql_eval)
  qed
  show ?thesis
    using generate_network_raises [of "{''3B''}" "graph_sparql [(''3A'', ''3B'')]" "[''3A'']" 2 False]
      generate_network_raises [of "{''3C''}" "graph_sparql [(''3A'', ''3B'')]" "[''3A'']" 2 False]
    by (simp add: L degree_filter_def)
qed

end
