(* ===== verification/Cost.thy ===== *)
theory Cost
  imports Expander
begin

text \<open>
  What the expander costs: the lookups \<open>get_citations_structure\<close>
  (src/src/helper_functions.py, line 79) issues, as returned in order by
  \<open>Expander.get_citations_structure\<close>. Three facts: the number of lookups is
  bounded by \<open>(B + 2) ^ (c + d)\<close> when the endpoint never returns more than \<open>B\<close>
  bindings (so the traversal ends after a bounded number of requests, whatever the
  answers); the documents looked up are exactly the neighbourhoods one hop short of
  the depths (every one of them is queried, none other); and, because the visited set
  is not forwarded (line 91), the count can be exponential in the depth although the
  graph has two documents. In the citing direction the visited set has no effect at all on the
  result or on the lookups, and in the cited direction a document on a two-document
  citation cycle is looked up again below its partner.
\<close>

lemma length_get_citations: "length (get_citations q s c d) \<le> length (q s c d)"
  unfolding get_citations_def by (rule order_trans [OF length_remdups_leq length_filter_le])

lemma sum_list_map_le: "(\<And>x. x \<in> set xs \<Longrightarrow> f x \<le> K) \<Longrightarrow> sum_list (map f xs) \<le> length xs * (K::nat)"
  by (induction xs) (auto intro: add_mono)

lemma add_le_mult_nat: "2 \<le> (p::nat) \<Longrightarrow> 2 \<le> q \<Longrightarrow> p + q \<le> p * q"
proof -
  assume "2 \<le> p" "2 \<le> q"
  then obtain p' q' where "p = Suc (Suc p')" "q = Suc (Suc q')"
    by (metis add_2_eq_Suc le_Suc_ex)
  then show ?thesis by simp
qed

lemma pow_add_le_pow_sum:
  assumes "2 \<le> (x::nat)" and "0 < a" and "0 < b"
  shows "x ^ a + x ^ b \<le> x ^ (a + b)"
proof -
  from assms have "x ^ 1 \<le> x ^ a" and "x ^ 1 \<le> x ^ b"
    by (intro power_increasing; simp)+
  with assms have "x ^ a + x ^ b \<le> x ^ a * x ^ b"
    by (intro add_le_mult_nat) simp_all
  then show ?thesis by (simp add: power_add)
qed

lemma get_citations_structure_calls_le:
  assumes B: "\<And>u a b. length (q u a b) \<le> B"
  shows "length (snd (get_citations_structure q s c d dr)) \<le> (B + 2) ^ (nat c + nat d)"
proof (induction "nat c + nat d" arbitrary: s c d dr rule: less_induct)
  case less
  show ?case
  proof (cases "0 < c \<and> 0 < d")
    case True
    from True have "nat c + nat 0 < nat c + nat d" by simp
    then have "length (snd (get_citations_structure q s c 0 dr)) \<le> (B + 2) ^ (nat c + nat 0)"
      by (rule less)
    then have l: "length (snd (get_citations_structure q s c 0 dr)) \<le> (B + 2) ^ nat c"
      by simp
    from True have "nat 0 + nat d < nat c + nat d" by simp
    then have "length (snd (get_citations_structure q s 0 d dr)) \<le> (B + 2) ^ (nat 0 + nat d)"
      by (rule less)
    then have r: "length (snd (get_citations_structure q s 0 d dr)) \<le> (B + 2) ^ nat d"
      by simp
    have "(B + 2) ^ nat c + (B + 2) ^ nat d \<le> (B + 2) ^ (nat c + nat d)"
      using True by (intro pow_add_le_pow_sum) simp_all
    with l r True show ?thesis
      by (simp add: get_citations_structure_calls_split)
  next
    case False
    let ?ts = "get_citations q s (min c 1) (min d 1)"
    let ?g = "\<lambda>t. max (c - 1) 0 \<noteq> 0 \<or> (max (d - 1) 0 \<noteq> 0 \<and> t \<notin> insert s dr)"
    let ?F = "\<lambda>t. if ?g t then snd (get_citations_structure q t (max (c - 1) 0) (max (d - 1) 0) {}) else []"
    let ?K = "(B + 2) ^ (nat c + nat d - 1)"
    have child: "length (?F t) \<le> ?K" for t
    proof (cases "?g t")
      case True
      with False have lt: "nat (max (c - 1) 0) + nat (max (d - 1) 0) < nat c + nat d"
        by auto
      then have "length (snd (get_citations_structure q t (max (c - 1) 0) (max (d - 1) 0) {}))
                   \<le> (B + 2) ^ (nat (max (c - 1) 0) + nat (max (d - 1) 0))"
        by (rule less)
      also have "\<dots> \<le> ?K"
        by (rule power_increasing) (use lt in linarith, simp)
      finally show ?thesis using True by simp
    next
      case False
      then show ?thesis by (simp only: if_not_P [OF False]) simp
    qed
    have "length (concat (map ?F ?ts)) \<le> length ?ts * ?K"
      unfolding length_concat map_map comp_def by (rule sum_list_map_le) (rule child)
    also have "\<dots> \<le> B * ?K"
      using order_trans [OF length_get_citations B] by simp
    finally have tail: "length (concat (map ?F ?ts)) \<le> B * ?K" .
    have len: "length (snd (get_citations_structure q s c d dr)) = Suc (length (concat (map ?F ?ts)))"
      using False by (simp add: get_citations_structure_calls_single)
    show ?thesis
    proof (cases "nat c + nat d = 0")
      case True
      then have "\<not> ?g t" for t by simp
      with False True show ?thesis
        by (simp add: get_citations_structure_calls_single)
    next
      case n: False
      then have "nat c + nat d = Suc (nat c + nat d - 1)" by linarith
      then have "(B + 2) ^ (nat c + nat d) = B * ?K + 2 * ?K"
        by (metis power_Suc distrib_right)
      moreover have "0 < ?K" by simp
      ultimately show ?thesis
        using tail len by linarith
    qed
  qed
qed

lemma calls_cites:
  "set (snd (get_citations_structure q s (int (Suc n)) 0 dr)) =
     (\<lambda>u. (u, 1, 0)) ` reach (cites_nbrs q) n s"
proof (induction n arbitrary: s dr)
  case 0
  then show ?case
    by (simp add: get_citations_structure_calls_single)
next
  case (Suc n)
  have m: "max (int (Suc (Suc n)) - 1) 0 = int (Suc n)" "min (int (Suc (Suc n))) 1 = 1"
    by simp_all
  have "set (snd (get_citations_structure q s (int (Suc (Suc n))) 0 dr)) =
          insert (s, 1, 0) (\<Union>t\<in>cites_nbrs q s. set (snd (get_citations_structure q t (int (Suc n)) 0 {})))"
    by (subst get_citations_structure_calls_single) (simp, simp only: m, simp add: cites_nbrs_def del: of_nat_Suc)
  also have "\<dots> = (\<lambda>u. (u, 1, 0)) ` reach (cites_nbrs q) (Suc n) s"
    by (simp add: Suc.IH image_UN del: of_nat_Suc)
  finally show ?case .
qed

lemma calls_cited:
  "set (snd (get_citations_structure q s 0 (int (Suc n)) {})) =
     (\<lambda>u. (u, 0, 1)) ` reach (cited_nbrs q) n s"
proof (induction n arbitrary: s)
  case 0
  then show ?case
    by (simp add: get_citations_structure_calls_single)
next
  case (Suc n)
  let ?N = "cited_nbrs q"
  have m: "max (int (Suc (Suc n)) - 1) 0 = int (Suc n)" "min (int (Suc (Suc n))) 1 = 1"
    by simp_all
  have "set (snd (get_citations_structure q s 0 (int (Suc (Suc n))) {})) =
          insert (s, 0, 1) (\<Union>t\<in>?N s. if t = s then {} else set (snd (get_citations_structure q t 0 (int (Suc n)) {})))"
    by (subst get_citations_structure_calls_single) (simp, simp only: m, simp add: cited_nbrs_def del: of_nat_Suc)
  also have "\<dots> = insert (s, 0, 1) (\<Union>t\<in>?N s. if t = s then {(t, 0, 1)} else (\<lambda>u. (u, 0, 1)) ` reach ?N n t)"
    by (auto simp: Suc.IH simp del: of_nat_Suc)
  also have "\<dots> = (\<lambda>u. (u, 0, 1)) ` reach ?N (Suc n) s"
    unfolding reach_skip_self image_insert image_UN
    by (intro arg_cong [where f = "insert (s, 0, 1)"] SUP_cong) simp_all
  finally show ?case .
qed

lemma get_citations_structure_calls_reach:
  assumes "0 \<le> c" and "0 \<le> d" and "0 < c \<or> 0 < d"
  shows "set (snd (get_citations_structure q s c d {})) =
     (\<lambda>u. (u, 1, 0)) ` (if 0 < c then reach (cites_nbrs q) (nat c - 1) s else {}) \<union>
     (\<lambda>u. (u, 0, 1)) ` (if 0 < d then reach (cited_nbrs q) (nat d - 1) s else {})"
proof -
  have c: "set (snd (get_citations_structure q s c 0 {})) = (\<lambda>u. (u, 1, 0)) ` reach (cites_nbrs q) (nat c - 1) s"
    if "0 < c"
    using calls_cites [of q s "nat c - 1" "{}"] that by (simp add: Suc_diff_1 del: of_nat_Suc)
  have d: "set (snd (get_citations_structure q s 0 d {})) = (\<lambda>u. (u, 0, 1)) ` reach (cited_nbrs q) (nat d - 1) s"
    if "0 < d"
    using calls_cited [of q s "nat d - 1"] that by (simp add: Suc_diff_1 del: of_nat_Suc)
  consider "0 < c" "0 < d" | "0 < c" "d = 0" | "c = 0" "0 < d"
    using assms by linarith
  then show ?thesis
  proof cases
    case 1
    then show ?thesis
      by (simp only: get_citations_structure_calls_split set_append c d if_True)
  next
    case 2
    then show ?thesis
      using c by simp
  next
    case 3
    then show ?thesis
      using d by simp
  qed
qed

lemma calls_two_cycle:
  assumes "u = ''3A'' \<or> u = ''3B''"
  shows "length (snd (get_citations_structure
            (graph_sparql [(''3A'', ''3A''), (''3A'', ''3B''), (''3B'', ''3A''), (''3B'', ''3B'')])
            u (int (Suc n)) 0 dr)) = 2 ^ Suc n - 1"
  using assms
proof (induction n arbitrary: u dr)
  case 0
  then show ?case
    by (simp add: get_citations_structure_calls_single)
next
  case (Suc n)
  let ?q = "graph_sparql [(''3A'', ''3A''), (''3A'', ''3B''), (''3B'', ''3A''), (''3B'', ''3B'')]"
  have m: "max (int (Suc (Suc n)) - 1) 0 = int (Suc n)" "min (int (Suc (Suc n))) 1 = 1"
    by simp_all
  have ts: "get_citations ?q u 1 0 = [''3A'', ''3B'']"
    using Suc.prems by (elim disjE) (simp_all add: graph_sparql_eval)
  have "length (snd (get_citations_structure ?q u (int (Suc (Suc n))) 0 dr)) =
          Suc (length (snd (get_citations_structure ?q ''3A'' (int (Suc n)) 0 {})) +
               length (snd (get_citations_structure ?q ''3B'' (int (Suc n)) 0 {})))"
    by (subst get_citations_structure_calls_single) (simp, simp only: m, simp add: ts del: of_nat_Suc)
  also have "\<dots> = 2 ^ Suc (Suc n) - 1"
  proof -
    have "(1::nat) \<le> 2 ^ n" by simp
    then show ?thesis
      using Suc.IH [of "''3A''" "{}"] Suc.IH [of "''3B''" "{}"] by (simp del: of_nat_Suc, linarith)
  qed
  finally show ?case .
qed

text \<open>
  C23. Bounded work: if the endpoint never returns more than \<open>B\<close> bindings, a call
  of \<open>get_citations_structure\<close>, for any depths and any visited set, issues at most
  \<open>(B + 2) ^ (nat c + nat d)\<close> lookups. The recursion ends after a number of
  requests bounded by the depths and the answer size alone.
\<close>

theorem get_citations_structure_lookup_bound:
  assumes "\<forall>u a b. length (q u a b) \<le> B"
  shows "length (snd (get_citations_structure q s c d dr)) \<le> (B + 2) ^ (nat c + nat d)"
  by (rule get_citations_structure_calls_le) (use assms in blast)

theorem get_citations_structure_lookup_bound_witness:
  "length (snd (get_citations_structure (graph_sparql [(''3A'', ''3B'')]) ''3A'' 2 2 {})) \<le> 81"
proof -
  have "\<forall>u a b. length (graph_sparql [(''3A'', ''3B'')] u a b) \<le> 1"
    by (simp add: graph_sparql_def)
  moreover have "Suc (Suc (Suc 0)) ^ 4 = (81::nat)"
    by (simp add: eval_nat_numeral)
  ultimately show ?thesis
    using get_citations_structure_lookup_bound [of "graph_sparql [(''3A'', ''3B'')]" 1 "''3A''" 2 2 "{}"]
    by simp
qed

text \<open>
  C24. Every document within \<open>cites_depth - 1\<close> citing hops of the source is looked
  up for its one-hop citations, every document within \<open>cited_depth - 1\<close> cited hops
  for its one-hop citers, and no other lookup is issued, for non-negative depths not
  both zero and the default empty visited set.
\<close>

theorem get_citations_structure_looks_up_reach:
  assumes "0 \<le> c" and "0 \<le> d" and "0 < c \<or> 0 < d"
  shows "set (snd (get_citations_structure q s c d {})) =
     (\<lambda>u. (u, 1, 0)) ` (if 0 < c then reach (cites_nbrs q) (nat c - 1) s else {}) \<union>
     (\<lambda>u. (u, 0, 1)) ` (if 0 < d then reach (cited_nbrs q) (nat d - 1) s else {})"
  using assms by (rule get_citations_structure_calls_reach)

theorem get_citations_structure_looks_up_reach_witness:
  "set (snd (get_citations_structure (graph_sparql [(''3A'', ''3B''), (''3B'', ''3C''), (''3D'', ''3A'')])
         ''3A'' 2 1 {})) = {(''3A'', 1, 0), (''3B'', 1, 0), (''3A'', 0, 1)}"
  using get_citations_structure_looks_up_reach
      [of 2 1 "graph_sparql [(''3A'', ''3B''), (''3B'', ''3C''), (''3D'', ''3A'')]" "''3A''"]
  by (simp add: cites_nbrs_def graph_sparql_eval insert_commute)

text \<open>
  C25. The lookups repeat: on the graph of two documents that cite each other and
  themselves, expanding 3A with depth \<open>n + 1\<close> in the citing direction issues
  \<open>2 ^ (n + 1) - 1\<close> lookups, exponentially many for two distinct documents.
\<close>

theorem lookups_two_documents_exponential:
  "length (snd (get_citations_structure
      (graph_sparql [(''3A'', ''3A''), (''3A'', ''3B''), (''3B'', ''3A''), (''3B'', ''3B'')])
      ''3A'' (int (Suc n)) 0 {})) = 2 ^ Suc n - 1"
  by (rule calls_two_cycle) simp

lemma expand_targets_visited_citing:
  assumes "d \<le> 0"
  shows "expand_targets q s c d dr ts L N = expand_targets q s c d dr' ts L N"
proof -
  from assms have "max (d - 1) 0 = 0" by simp
  then show ?thesis
    by (induction ts arbitrary: L N) (simp_all add: Let_def)
qed

text \<open>
  C30. In the citing direction the visited set is dead: with \<open>cited_depth \<le> 0\<close>
  the guard of line 90 reduces to \<open>new_cites_depth\<close>, so whatever
  \<open>dont_repeat\<close> a caller passes, \<open>get_citations_structure\<close> returns the same
  links and nodes and issues the same lookups in the same order.
\<close>

theorem visited_set_irrelevant_citing:
  assumes "cited_depth \<le> 0"
  shows "get_citations_structure q s cites_depth cited_depth dont_repeat =
         get_citations_structure q s cites_depth cited_depth dont_repeat'"
proof -
  from assms have n: "\<not> (0 < cites_depth \<and> 0 < cited_depth)" by simp
  show ?thesis
    unfolding get_citations_structure.simps [of q s cites_depth cited_depth dont_repeat]
      get_citations_structure.simps [of q s cites_depth cited_depth dont_repeat'] if_not_P [OF n]
    using expand_targets_visited_citing [OF assms, where dr = "insert s dont_repeat"
        and dr' = "insert s dont_repeat'"] by simp
qed

theorem visited_set_irrelevant_citing_witness:
  "get_citations_structure (graph_sparql [(''3A'', ''3B''), (''3B'', ''3A'')]) ''3A'' 2 0 {''3B''} =
   get_citations_structure (graph_sparql [(''3A'', ''3B''), (''3B'', ''3A'')]) ''3A'' 2 0 {}"
  by (rule visited_set_irrelevant_citing) simp

lemma count_list_concat_map_ge:
  "t \<in> set ts \<Longrightarrow> count_list (F t) x \<le> count_list (concat (map F ts)) x"
  by (induction ts) auto

lemma cited_child_calls:
  assumes "2 \<le> d" and "t \<in> set (get_citations q s 0 1)" and "t \<notin> insert s dr"
  shows "count_list [(s, 0, 1)] x + count_list (snd (get_citations_structure q t 0 (d - 1) {})) x
           \<le> count_list (snd (get_citations_structure q s 0 d dr)) x"
proof -
  let ?F = "\<lambda>t. if max (0 - 1) 0 \<noteq> (0::int) \<or> (max (d - 1) 0 \<noteq> 0 \<and> t \<notin> insert s dr)
                  then snd (get_citations_structure q t (max (0 - 1) 0) (max (d - 1) 0) {}) else []"
  have "snd (get_citations_structure q s 0 d dr) = (s, 0, 1) # concat (map ?F (get_citations q s 0 1))"
    using get_citations_structure_calls_single [of 0 d q s dr] assms(1) by simp
  moreover have "?F t = snd (get_citations_structure q t 0 (d - 1) {})"
    using assms by simp
  ultimately show ?thesis
    using count_list_concat_map_ge [OF assms(2), of ?F x] by simp
qed

text \<open>
  C6. The visited set is not forwarded (line 91): a child expansion knows only itself
  as visited. Whenever two distinct documents cite each other, a traversal of the cited
  direction with depth at least 3 started at one of them looks that document up again
  below the other, although the spec says a visited document is never re-expanded.
\<close>

theorem visited_set_not_propagated:
  assumes "3 \<le> d" and "s \<noteq> t"
    and "t \<in> set (get_citations q s 0 1)" and "s \<in> set (get_citations q t 0 1)"
  shows "2 \<le> count_list (snd (get_citations_structure q s 0 d {})) (s, 0, 1)"
proof -
  have "count_list [(t, 0, 1)] (s, 0, 1) + count_list (snd (get_citations_structure q s 0 (d - 1 - 1) {})) (s, 0, 1)
          \<le> count_list (snd (get_citations_structure q t 0 (d - 1) {})) (s, 0, 1)"
    using cited_child_calls [of "d - 1" s q t "{}" "(s, 0, 1)"] assms by simp
  moreover have "count_list [(s, 0, 1)] (s, 0, 1) + count_list (snd (get_citations_structure q t 0 (d - 1) {})) (s, 0, 1)
          \<le> count_list (snd (get_citations_structure q s 0 d {})) (s, 0, 1)"
    using cited_child_calls [of d t q s "{}" "(s, 0, 1)"] assms by simp
  moreover have "1 \<le> count_list (snd (get_citations_structure q s 0 (d - 1 - 1) {})) (s, 0, 1)"
    using get_citations_structure_calls_single [of 0 "d - 1 - 1" q s "{}"] assms(1) by simp
  ultimately show ?thesis
    by simp
qed

theorem visited_set_not_propagated_witness:
  "2 \<le> count_list (snd (get_citations_structure (graph_sparql [(''3A'', ''3B''), (''3B'', ''3A'')])
                            ''3A'' 0 3 {})) (''3A'', 0, 1)"
  by (rule visited_set_not_propagated [where t = "''3B''"]) (simp_all add: graph_sparql_eval)

end
