(* ===== verification/Output.thy ===== *)
theory Output
  imports Query
begin

text \<open>
  The I/O helpers of src/src/main.py. \<open>prep_edges_list\<close> (lines 38--47) builds one
  CSV line per link and writes the lines to a file; \<open>visualise_network\<close> (lines
  66--71) hands the filtered nodes and the edges between them to a pyvis
  \<open>Network\<close> and renders it.

  \<open>prep_edges_list\<close>: line 41 evaluates \<open>i[0][1:] + ',' + [1][1:]\<close>, where the
  last operand is the list literal \<open>[1]\<close> sliced, not \<open>i[1][1:]\<close>. The Python values
  involved are \<open>py_val\<close>, \<open>+\<close> is \<open>py_add\<close> (concatenation of two strings or two
  lists, \<open>TypeError\<close> for a string and a list) and \<open>x[1:]\<close> is \<open>py_slice1\<close>. The
  result of the function is the text written to the CSV file, or the exception.

  \<open>visualise_network\<close>: the pyvis \<open>Network\<close> object is the record
  \<open>pyvis_network\<close> (its size, its list of node ids and its list of edges), and
  the methods the code calls are state updates, following pyvis's
  \<open>Network.add_nodes\<close>, \<open>add_node\<close>, \<open>add_edges\<close> and \<open>add_edge\<close> (pyvis is a
  library the code calls, not part of the repository). \<open>add_nodes\<close> first tries
  \<open>int(node)\<close> on every element and adds a number-like id as an int, any other as
  the string: node ids are \<open>node_id\<close>s, and \<open>py_int\<close> is Python's \<open>int()\<close> on a
  string (surrounding whitespace, an optional sign, decimal digits with single
  underscores between them). \<open>add_node\<close> appends an id not yet present.
  \<open>add_edge\<close> asserts that both ends, as given, are among the node ids
  (\<open>AssertionError\<close> otherwise; the string \<open>'31'\<close> is not the int \<open>31\<close>) and
  appends the edge unless it is present in either orientation (the network is
  undirected); \<open>add_edges\<close> iterates it. The global \<open>g\<close> the function reads (the networkx
  graph of \<open>generate_network\<close>, never in scope here) is a parameter, its edge list;
  the set \<open>filtered\<close> is the list of its elements in iteration order. Rendering to
  HTML (\<open>nt.show\<close>) is not modelled: the result is the network that is rendered.
\<close>

subsection \<open>prep_edges_list\<close>

datatype py_val = PyStr string | PyList "py_val list" | PyInt int

fun py_add :: "py_val \<Rightarrow> py_val \<Rightarrow> py_error + py_val" where
  "py_add (PyStr a) (PyStr b) = Inr (PyStr (a @ b))"
| "py_add (PyList a) (PyList b) = Inr (PyList (a @ b))"
| "py_add (PyInt a) (PyInt b) = Inr (PyInt (a + b))"
| "py_add _ _ = Inl TypeError"

fun py_slice1 :: "py_val \<Rightarrow> py_error + py_val" where
  "py_slice1 (PyStr a) = Inr (PyStr (drop 1 a))"
| "py_slice1 (PyList a) = Inr (PyList (drop 1 a))"
| "py_slice1 (PyInt a) = Inl TypeError"

text \<open>The expression of line 41, evaluated left to right.\<close>

definition edge_entry :: "link \<Rightarrow> py_error + py_val" where
  "edge_entry i =
     (case py_slice1 (PyStr (fst i)) of
        Inl e \<Rightarrow> Inl e
      | Inr a \<Rightarrow>
          (case py_add a (PyStr '','') of
             Inl e \<Rightarrow> Inl e
           | Inr b \<Rightarrow>
               (case py_slice1 (PyList [PyInt 1]) of
                  Inl e \<Rightarrow> Inl e
                | Inr c \<Rightarrow> py_add b c)))"

fun prep_loop :: "link list \<Rightarrow> py_val list \<Rightarrow> py_error + py_val list" where
  "prep_loop [] edges_list_for_csv = Inr edges_list_for_csv"
| "prep_loop (i # links) edges_list_for_csv =
     (case edge_entry i of
        Inl e \<Rightarrow> Inl e
      | Inr to_add \<Rightarrow> prep_loop links (edges_list_for_csv @ [to_add]))"

text \<open>Lines 44--46: \<open>f.write\<close> takes a string; each entry is followed by a line break.\<close>

fun write_entries :: "py_val list \<Rightarrow> py_error + string" where
  "write_entries [] = Inr []"
| "write_entries (PyStr s # entries) =
     (case write_entries entries of Inl e \<Rightarrow> Inl e | Inr r \<Rightarrow> Inr (s @ nl @ r))"
| "write_entries (_ # entries) = Inl TypeError"

definition prep_edges_list :: "link list \<Rightarrow> py_error + string" where
  "prep_edges_list links =
     (case prep_loop links [] of Inl e \<Rightarrow> Inl e | Inr entries \<Rightarrow> write_entries entries)"

subsection \<open>visualise_network\<close>

text \<open>Python's \<open>int()\<close> on a string, as \<open>add_nodes\<close> uses it.\<close>

definition py_space :: "char \<Rightarrow> bool" where
  "py_space ch \<longleftrightarrow> of_char ch \<in> {9, 10, 11, 12, 13, 28, 29, 30, 31, 32, 133, 160 :: nat}"

definition py_strip :: "string \<Rightarrow> string" where
  "py_strip s = rev (dropWhile py_space (rev (dropWhile py_space s)))"

fun no_double_underscore :: "string \<Rightarrow> bool" where
  "no_double_underscore (a # b # r) =
     ((a \<noteq> CHR ''_'' \<or> b \<noteq> CHR ''_'') \<and> no_double_underscore (b # r))"
| "no_double_underscore _ = True"

definition int_digits_ok :: "string \<Rightarrow> bool" where
  "int_digits_ok b \<longleftrightarrow>
     b \<noteq> [] \<and> is_digit (hd b) \<and> is_digit (last b) \<and>
     list_all (\<lambda>ch. is_digit ch \<or> ch = CHR ''_'') b \<and> no_double_underscore b"

definition py_int :: "string \<Rightarrow> int option" where
  "py_int s =
     (let t = py_strip s;
          (sign, b) = (if t \<noteq> [] \<and> hd t = CHR ''-'' then (-1, tl t)
                       else if t \<noteq> [] \<and> hd t = CHR ''+'' then (1, tl t) else (1, t))
      in if int_digits_ok b
         then map_option (\<lambda>n. sign * int n) (parse_nat (filter (\<lambda>ch. ch \<noteq> CHR ''_'') b))
         else None)"

datatype node_id = NodeStr string | NodeInt int

text \<open>The id \<open>add_nodes\<close> stores for an element: \<open>int(node)\<close> if it succeeds.\<close>

definition node_of :: "celex \<Rightarrow> node_id" where
  "node_of node = (case py_int node of Some i \<Rightarrow> NodeInt i | None \<Rightarrow> NodeStr node)"

record pyvis_network =
  net_height :: int
  net_width :: int
  node_ids :: "node_id list"
  net_edges :: "link list"

definition new_network :: "int \<Rightarrow> int \<Rightarrow> pyvis_network" where
  "new_network height width = \<lparr>net_height = height, net_width = width, node_ids = [], net_edges = []\<rparr>"

definition add_node :: "pyvis_network \<Rightarrow> node_id \<Rightarrow> pyvis_network" where
  "add_node nt n_id = (if n_id \<in> set (node_ids nt) then nt else nt\<lparr>node_ids := node_ids nt @ [n_id]\<rparr>)"

definition add_nodes :: "pyvis_network \<Rightarrow> celex list \<Rightarrow> pyvis_network" where
  "add_nodes nt nodes = foldl (\<lambda>nt node. add_node nt (node_of node)) nt nodes"

definition add_edge :: "pyvis_network \<Rightarrow> celex \<Rightarrow> celex \<Rightarrow> py_error + pyvis_network" where
  "add_edge nt source to =
     (if NodeStr source \<in> set (node_ids nt) \<and> NodeStr to \<in> set (node_ids nt) then
        (if list_ex (\<lambda>(frm, dest). (source = dest \<and> to = frm) \<or> (source = frm \<and> to = dest)) (net_edges nt)
         then Inr nt
         else Inr (nt\<lparr>net_edges := net_edges nt @ [(source, to)]\<rparr>))
      else Inl AssertionError)"

fun add_edges :: "pyvis_network \<Rightarrow> link list \<Rightarrow> py_error + pyvis_network" where
  "add_edges nt [] = Inr nt"
| "add_edges nt ((source, to) # edges) =
     (case add_edge nt source to of Inl e \<Rightarrow> Inl e | Inr nt' \<Rightarrow> add_edges nt' edges)"

definition visualise_network ::
    "int \<Rightarrow> int \<Rightarrow> celex list \<Rightarrow> celex \<Rightarrow> link list \<Rightarrow> py_error + pyvis_network" where
  "visualise_network width height filtered source g_edges =
     (let nt = add_nodes (new_network height width) filtered
      in add_edges nt [(source, target). (source, target) \<leftarrow> g_edges,
                                        source \<in> set filtered \<and> target \<in> set filtered])"

text \<open>
  The shape pyvis keeps: node ids are distinct and every edge joins two nodes given
  as strings. An undirected edge set is compared up to orientation with
  \<open>undirected\<close>.
\<close>

definition pyvis_ok :: "pyvis_network \<Rightarrow> bool" where
  "pyvis_ok nt \<longleftrightarrow>
     distinct (node_ids nt) \<and>
     list_all (\<lambda>(a, b). NodeStr a \<in> set (node_ids nt) \<and> NodeStr b \<in> set (node_ids nt)) (net_edges nt)"

definition undirected :: "link set \<Rightarrow> link set" where
  "undirected L = L \<union> prod.swap ` L"

lemma edge_entry_TypeError [simp]: "edge_entry i = Inl TypeError"
  by (simp add: edge_entry_def)

lemma prep_loop_Cons [simp]: "prep_loop (i # links) acc = Inl TypeError"
  by simp

lemma undirected_insert [simp]:
  "undirected (insert (a, b) L) = insert (a, b) (insert (b, a) (undirected L))"
  by (auto simp: undirected_def)

lemma undirected_Un [simp]: "undirected (L \<union> M) = undirected L \<union> undirected M"
  by (auto simp: undirected_def)

lemma undirected_absorb:
  "(a, b) \<in> undirected L \<Longrightarrow> insert (a, b) (insert (b, a) (undirected L)) = undirected L"
  by (auto simp: undirected_def)

lemma NodeStr_in_node_of [simp]: "NodeStr a \<in> node_of ` S \<longleftrightarrow> a \<in> S \<and> py_int a = None"
  by (force simp: node_of_def split: option.splits)

lemma add_node_fields [simp]:
  "set (node_ids (add_node nt n)) = insert n (set (node_ids nt))"
  "net_edges (add_node nt n) = net_edges nt"
  "net_height (add_node nt n) = net_height nt"
  "net_width (add_node nt n) = net_width nt"
  by (auto simp: add_node_def)

lemma add_node_distinct: "distinct (node_ids nt) \<Longrightarrow> distinct (node_ids (add_node nt n))"
  by (simp add: add_node_def)

lemma add_nodes_fields [simp]:
  "set (node_ids (add_nodes nt ns)) = set (node_ids nt) \<union> node_of ` set ns"
  "net_edges (add_nodes nt ns) = net_edges nt"
  "net_height (add_nodes nt ns) = net_height nt"
  "net_width (add_nodes nt ns) = net_width nt"
  unfolding add_nodes_def by (induction ns arbitrary: nt) auto

lemma add_nodes_distinct: "distinct (node_ids nt) \<Longrightarrow> distinct (node_ids (add_nodes nt ns))"
  unfolding add_nodes_def by (induction ns arbitrary: nt) (simp_all add: add_node_distinct)

lemma add_edge_ok:
  "pyvis_ok nt \<Longrightarrow> add_edge nt s t = Inr nt' \<Longrightarrow> pyvis_ok nt'"
  by (auto simp: pyvis_ok_def add_edge_def split: if_splits)

lemma add_edge_absent:
  "\<not> (NodeStr s \<in> set (node_ids nt) \<and> NodeStr t \<in> set (node_ids nt)) \<Longrightarrow>
   add_edge nt s t = Inl AssertionError"
  by (simp add: add_edge_def)

lemma add_edge_present:
  assumes "NodeStr s \<in> set (node_ids nt)" and "NodeStr t \<in> set (node_ids nt)"
  shows "\<exists>nt'. add_edge nt s t = Inr nt' \<and> node_ids nt' = node_ids nt \<and>
           net_height nt' = net_height nt \<and> net_width nt' = net_width nt \<and>
           set (net_edges nt') \<subseteq> insert (s, t) (set (net_edges nt)) \<and>
           undirected (set (net_edges nt')) = undirected (insert (s, t) (set (net_edges nt)))"
proof (cases "list_ex (\<lambda>(frm, dest). (s = dest \<and> t = frm) \<or> (s = frm \<and> t = dest)) (net_edges nt)")
  case True
  then have "(s, t) \<in> undirected (set (net_edges nt))"
    by (force simp: list_ex_iff undirected_def)
  with True assms show ?thesis
    by (simp add: add_edge_def undirected_absorb subset_insertI)
next
  case False
  with assms show ?thesis
    by (auto simp: add_edge_def)
qed

lemma add_edges_ok:
  "pyvis_ok nt \<Longrightarrow> add_edges nt es = Inr nt' \<Longrightarrow> pyvis_ok nt'"
proof (induction nt es rule: add_edges.induct)
  case (2 nt s t es)
  then show ?case
    by (auto split: sum.splits dest: add_edge_ok)
qed simp

lemma add_edges_present:
  assumes "list_all (\<lambda>(a, b). NodeStr a \<in> set (node_ids nt) \<and> NodeStr b \<in> set (node_ids nt)) es"
  shows "\<exists>nt'. add_edges nt es = Inr nt' \<and> node_ids nt' = node_ids nt \<and>
           net_height nt' = net_height nt \<and> net_width nt' = net_width nt \<and>
           set (net_edges nt') \<subseteq> set (net_edges nt) \<union> set es \<and>
           undirected (set (net_edges nt')) = undirected (set (net_edges nt) \<union> set es)"
  using assms
proof (induction nt es rule: add_edges.induct)
  case (1 nt)
  then show ?case by simp
next
  case (2 nt s t es)
  then obtain nt1 where e: "add_edge nt s t = Inr nt1" and n1: "node_ids nt1 = node_ids nt"
      and h1: "net_height nt1 = net_height nt" "net_width nt1 = net_width nt"
      and s1: "set (net_edges nt1) \<subseteq> insert (s, t) (set (net_edges nt))"
      and u1: "undirected (set (net_edges nt1)) = undirected (insert (s, t) (set (net_edges nt)))"
    using add_edge_present [of s nt t] by auto
  from "2.prems" n1 have "list_all (\<lambda>(a, b). NodeStr a \<in> set (node_ids nt1) \<and> NodeStr b \<in> set (node_ids nt1)) es"
    by simp
  with "2.IH" [OF e] obtain nt2 where "add_edges nt1 es = Inr nt2" "node_ids nt2 = node_ids nt1"
      "net_height nt2 = net_height nt1" "net_width nt2 = net_width nt1"
      "set (net_edges nt2) \<subseteq> set (net_edges nt1) \<union> set es"
      "undirected (set (net_edges nt2)) = undirected (set (net_edges nt1) \<union> set es)"
    by blast
  with e n1 h1 s1 u1 show ?case
    by (auto simp: insert_commute)
qed

lemma add_edges_assertion:
  "(add_edges nt es = Inl AssertionError \<longleftrightarrow>
      list_ex (\<lambda>(a, b). \<not> (NodeStr a \<in> set (node_ids nt) \<and> NodeStr b \<in> set (node_ids nt))) es) \<and>
   (\<forall>e. add_edges nt es = Inl e \<longrightarrow> e = AssertionError)"
proof (induction nt es rule: add_edges.induct)
  case (1 nt)
  then show ?case by simp
next
  case (2 nt s t es)
  show ?case
  proof (cases "NodeStr s \<in> set (node_ids nt) \<and> NodeStr t \<in> set (node_ids nt)")
    case True
    then obtain nt1 where e: "add_edge nt s t = Inr nt1" and n1: "node_ids nt1 = node_ids nt"
      using add_edge_present [of s nt t] by blast
    with "2.IH" [OF e] True show ?thesis
      by simp
  next
    case False
    then show ?thesis
      by (simp add: add_edge_absent)
  qed
qed

lemma visualise_network_edges:
  "visualise_network width height filtered source g_edges =
     add_edges (add_nodes (new_network height width) filtered)
       (filter (\<lambda>(a, b). a \<in> set filtered \<and> b \<in> set filtered) g_edges)"
proof -
  have "[(s, t). (s, t) \<leftarrow> g_edges, s \<in> set filtered \<and> t \<in> set filtered] =
          filter (\<lambda>(a, b). a \<in> set filtered \<and> b \<in> set filtered) g_edges"
    by (induction g_edges) (simp_all add: split_def)
  then show ?thesis
    by (simp add: visualise_network_def)
qed

lemma visualise_network_cases:
  "(visualise_network width height filtered source g_edges = Inl AssertionError \<longleftrightarrow>
      list_ex (\<lambda>(a, b). a \<in> set filtered \<and> b \<in> set filtered \<and> (py_int a \<noteq> None \<or> py_int b \<noteq> None))
        g_edges) \<and>
   ((\<exists>nt. visualise_network width height filtered source g_edges = Inr nt) \<longleftrightarrow>
      \<not> list_ex (\<lambda>(a, b). a \<in> set filtered \<and> b \<in> set filtered \<and> (py_int a \<noteq> None \<or> py_int b \<noteq> None))
        g_edges)"
proof -
  let ?nt = "add_nodes (new_network height width) filtered"
  let ?es = "filter (\<lambda>(a, b). a \<in> set filtered \<and> b \<in> set filtered) g_edges"
  have n: "set (node_ids ?nt) = node_of ` set filtered"
    by (simp add: new_network_def)
  have ex: "list_ex (\<lambda>(a, b). \<not> (NodeStr a \<in> set (node_ids ?nt) \<and> NodeStr b \<in> set (node_ids ?nt))) ?es \<longleftrightarrow>
            list_ex (\<lambda>(a, b). a \<in> set filtered \<and> b \<in> set filtered \<and> (py_int a \<noteq> None \<or> py_int b \<noteq> None))
              g_edges"
    unfolding n by (induction g_edges) auto
  have "(\<exists>nt. add_edges ?nt ?es = Inr nt) \<longleftrightarrow> add_edges ?nt ?es \<noteq> Inl AssertionError"
    using add_edges_assertion [of ?nt ?es] by (cases "add_edges ?nt ?es") auto
  with add_edges_assertion [of ?nt ?es] ex show ?thesis
    unfolding visualise_network_edges by blast
qed

lemma visualise_network_Inr:
  assumes "visualise_network width height filtered source g_edges = Inr nt"
  shows "net_height nt = height \<and> net_width nt = width \<and> pyvis_ok nt \<and>
         set (node_ids nt) = node_of ` set filtered \<and> set (net_edges nt) \<subseteq> set g_edges \<and>
         undirected (set (net_edges nt)) =
           undirected {(a, b) \<in> set g_edges. a \<in> set filtered \<and> b \<in> set filtered}"
proof -
  let ?nt = "add_nodes (new_network height width) filtered"
  let ?es = "filter (\<lambda>(a, b). a \<in> set filtered \<and> b \<in> set filtered) g_edges"
  have es: "set ?es = {(a, b) \<in> set g_edges. a \<in> set filtered \<and> b \<in> set filtered}"
    by auto
  have ok: "pyvis_ok ?nt"
    by (simp add: pyvis_ok_def new_network_def add_nodes_distinct)
  have "\<not> list_ex (\<lambda>(a, b). \<not> (NodeStr a \<in> set (node_ids ?nt) \<and> NodeStr b \<in> set (node_ids ?nt))) ?es"
    using add_edges_assertion [of ?nt ?es] assms by (auto simp: visualise_network_edges)
  then have "list_all (\<lambda>(a, b). NodeStr a \<in> set (node_ids ?nt) \<and> NodeStr b \<in> set (node_ids ?nt)) ?es"
    by (auto simp: list_ex_iff list_all_iff split_def new_network_def)
  from add_edges_present [OF this] obtain nt' where r: "add_edges ?nt ?es = Inr nt'"
      "node_ids nt' = node_ids ?nt" "net_height nt' = net_height ?nt" "net_width nt' = net_width ?nt"
      "set (net_edges nt') \<subseteq> set (net_edges ?nt) \<union> set ?es"
      "undirected (set (net_edges nt')) = undirected (set (net_edges ?nt) \<union> set ?es)"
    by blast
  from r(1) assms have "nt' = nt"
    by (simp add: visualise_network_edges)
  moreover from r(1) ok have "pyvis_ok nt'"
    by (rule add_edges_ok [rotated])
  moreover from r(5) have "set (net_edges nt') \<subseteq> set g_edges"
    by (auto simp: new_network_def)
  moreover from r(6) have "undirected (set (net_edges nt')) =
       undirected {(a, b) \<in> set g_edges. a \<in> set filtered \<and> b \<in> set filtered}"
    unfolding es [symmetric] by (simp add: new_network_def)
  moreover from r(2-4) have "set (node_ids nt') = node_of ` set filtered"
      "net_height nt' = height" "net_width nt' = width"
    by (simp_all add: new_network_def)
  ultimately show ?thesis
    by blast
qed

text \<open>
  C26. When \<open>visualise_network\<close> fails: pyvis stores a number-like id of
  \<open>filtered\<close> (one \<open>int()\<close> accepts, such as \<open>'31'\<close>) as an int, so an edge of
  \<open>g\<close> between two filtered documents with such an end fails \<open>add_edge\<close>'s assertion,
  which compares the string. The function raises \<open>AssertionError\<close> exactly when some
  edge of \<open>g\<close> kept by the comprehension of lines 69--70 has a number-like end, and
  returns a network otherwise. Every CELEX id contains a letter, so on CELEX ids the
  call always returns.
\<close>

theorem visualise_network_assertion:
  "(visualise_network width height filtered source g_edges = Inl AssertionError \<longleftrightarrow>
      list_ex (\<lambda>(a, b). a \<in> set filtered \<and> b \<in> set filtered \<and> (py_int a \<noteq> None \<or> py_int b \<noteq> None))
        g_edges) \<and>
   ((\<exists>nt. visualise_network width height filtered source g_edges = Inr nt) \<longleftrightarrow>
      \<not> list_ex (\<lambda>(a, b). a \<in> set filtered \<and> b \<in> set filtered \<and> (py_int a \<noteq> None \<or> py_int b \<noteq> None))
        g_edges)"
  by (rule visualise_network_cases)

theorem visualise_network_assertion_witness:
  "visualise_network 1280 720 [''31'', ''32''] ''31'' [(''31'', ''32'')] = Inl AssertionError \<and>
   (\<exists>nt. visualise_network 1280 720 [''32021R0664'', ''32019R0945''] ''32021R0664''
           [(''32021R0664'', ''32019R0945''), (''32019R0945'', ''3X'')] = Inr nt)"
proof -
  have a: "py_int ''31'' = Some 31"
    by code_simp
  have b: "py_int ''32021R0664'' = None" "py_int ''32019R0945'' = None"
    by code_simp+
  show ?thesis
    using visualise_network_assertion [of 1280 720 "[''31'', ''32'']" "''31''" "[(''31'', ''32'')]"]
      visualise_network_assertion [of 1280 720 "[''32021R0664'', ''32019R0945'']" "''32021R0664''"
        "[(''32021R0664'', ''32019R0945''), (''32019R0945'', ''3X'')]"]
    by (simp add: a b)
qed

text \<open>
  C27. The network \<open>visualise_network\<close> renders when it returns: the requested
  size; as node ids, exactly what \<open>add_nodes\<close> stores for \<open>filtered\<close> (the int for
  a number-like id, the string otherwise), each once; only edges of \<open>g\<close>, each joining
  two string ids of the network; and, up to orientation, every edge of \<open>g\<close> between
  two filtered documents, each such pair once.
\<close>

theorem visualise_network_result:
  assumes "visualise_network width height filtered source g_edges = Inr nt"
  shows "net_height nt = height \<and> net_width nt = width \<and> pyvis_ok nt \<and>
         set (node_ids nt) = node_of ` set filtered \<and> set (net_edges nt) \<subseteq> set g_edges \<and>
         undirected (set (net_edges nt)) =
           undirected {(a, b) \<in> set g_edges. a \<in> set filtered \<and> b \<in> set filtered}"
  using assms by (rule visualise_network_Inr)

theorem visualise_network_result_witness:
  "net_height \<lparr>net_height = 720, net_width = 1280,
                node_ids = [NodeStr ''32021R0664'', NodeStr ''32019R0945''],
                net_edges = [(''32021R0664'', ''32019R0945'')]\<rparr> = 720"
proof -
  have "visualise_network 1280 720 [''32021R0664'', ''32019R0945''] ''32021R0664''
          [(''32021R0664'', ''32019R0945''), (''32019R0945'', ''32021R0664''), (''32019R0945'', ''3X'')] =
        Inr \<lparr>net_height = 720, net_width = 1280,
             node_ids = [NodeStr ''32021R0664'', NodeStr ''32019R0945''],
             net_edges = [(''32021R0664'', ''32019R0945'')]\<rparr>"
    by code_simp
  from visualise_network_result [OF this] show ?thesis
    by simp
qed

text \<open>
  C28. \<open>prep_edges_list\<close> raises \<open>TypeError\<close> for every non-empty collection of
  links: line 41 adds the string \<open>i[0][1:] + ','\<close> to the list \<open>[1][1:]\<close>
  (the literal list \<open>[1]\<close>, where \<open>i[1][1:]\<close> was meant), before the file is
  opened. With no links it writes an empty file.
\<close>

theorem prep_edges_list_type_error:
  "prep_edges_list links = (if links = [] then Inr [] else Inl TypeError)"
  by (cases links) (simp_all add: prep_edges_list_def)

end
