(* ===== verification/Response.thy ===== *)
theory Response
  imports Lookup
begin

text \<open>
  SparqlResponse: what \<open>get_citations\<close> (src/src/helper_functions.py lines 35--43)
  does with the endpoint's answer. \<open>sparql.queryAndConvert()\<close> with the JSON return
  format yields the decoded JSON document, a \<open>json\<close> value here (strings, arrays,
  objects as association lists). Python's \<open>d[k]\<close> on it is \<open>json_index\<close>
  (\<open>KeyError\<close> for a missing key, \<open>TypeError\<close> when indexing a string or a list by a
  string), \<open>for x in v\<close> is \<open>json_iter\<close> (the elements of an array, the keys of an
  object, the one-character strings of a string), and \<open>targets.add(target)\<close> accepts
  only a string (arrays and objects are unhashable: \<open>TypeError\<close>).
  \<open>get_citations_json\<close> is the whole function over an endpoint from request texts
  to JSON documents. \<open>sparql_json\<close> encodes a list of names in the SPARQL 1.1 JSON
  results format (one solution per name, \<open>?name2\<close> bound to it); it is not code of
  the repository but the format the endpoint answers in, and C31 is the round trip
  through it.
\<close>

datatype json = JStr string | JArr "json list" | JObj "(string \<times> json) list"

fun json_index :: "json \<Rightarrow> string \<Rightarrow> py_error + json" where
  "json_index (JObj kvs) k = (case map_of kvs k of Some v \<Rightarrow> Inr v | None \<Rightarrow> Inl KeyError)"
| "json_index (JArr xs) k = Inl TypeError"
| "json_index (JStr s) k = Inl TypeError"

fun json_iter :: "json \<Rightarrow> json list" where
  "json_iter (JArr xs) = xs"
| "json_iter (JObj kvs) = map (JStr \<circ> fst) kvs"
| "json_iter (JStr s) = map (\<lambda>ch. JStr [ch]) s"

text \<open>The loop of lines 38--40, collecting \<open>bind['name2']['value']\<close>.\<close>

fun collect_targets :: "json list \<Rightarrow> celex list \<Rightarrow> py_error + celex list" where
  "collect_targets [] targets = Inr targets"
| "collect_targets (binding # binds) targets =
     (case json_index binding ''name2'' of
        Inl e \<Rightarrow> Inl e
      | Inr name2 \<Rightarrow>
          (case json_index name2 ''value'' of
             Inl e \<Rightarrow> Inl e
           | Inr (JStr target) \<Rightarrow> collect_targets binds (targets @ [target])
           | Inr _ \<Rightarrow> Inl TypeError))"

definition get_citations_json ::
    "(string \<Rightarrow> json) \<Rightarrow> celex \<Rightarrow> int \<Rightarrow> int \<Rightarrow> py_error + celex list" where
  "get_citations_json endpoint source_celex cites_depth cited_depth =
     (let ret = endpoint (sparql_query source_celex cites_depth cited_depth)
      in case json_index ret ''results'' of
           Inl e \<Rightarrow> Inl e
         | Inr results \<Rightarrow>
             (case json_index results ''bindings'' of
                Inl e \<Rightarrow> Inl e
              | Inr bindings \<Rightarrow>
                  (case collect_targets (json_iter bindings) [] of
                     Inl e \<Rightarrow> Inl e
                   | Inr targets \<Rightarrow> Inr (remdups (filter is_legislation targets)))))"

definition sparql_json :: "celex list \<Rightarrow> json" where
  "sparql_json names =
     JObj [(''head'', JObj [(''vars'', JArr [JStr ''name2''])]),
           (''results'', JObj [(''bindings'',
              JArr (map (\<lambda>n. JObj [(''name2'', JObj [(''type'', JStr ''literal''), (''value'', JStr n)])])
                     names))])]"

lemma collect_targets_sparql:
  "collect_targets
     (map (\<lambda>n. JObj [(''name2'', JObj [(''type'', JStr ''literal''), (''value'', JStr n)])]) names) acc =
   Inr (acc @ names)"
  by (induction names arbitrary: acc) simp_all

text \<open>
  C31. Round trip through the endpoint's answer format: when the endpoint answers a
  request in the SPARQL JSON results format, the walk of lines 37--40 over
  \<open>ret['results']['bindings']\<close> recovers exactly the names it encoded, so
  \<open>get_citations\<close> as written returns what \<open>get_citations_text\<close> (and hence the
  model \<open>get_citations\<close>) returns, without raising.
\<close>

theorem get_citations_json_roundtrip:
  "get_citations_json (\<lambda>t. sparql_json (endpoint t)) s c d = Inr (get_citations_text endpoint s c d)"
  by (simp add: get_citations_json_def sparql_json_def collect_targets_sparql get_citations_text_def)

text \<open>
  C32. The error paths of the response walk: an answer without a \<open>results\<close> member
  (an error document of the endpoint, say) raises \<open>KeyError\<close> at line 38, and so does
  a solution in which \<open>?name2\<close> is unbound (the results format then omits the
  variable), at line 39.
\<close>

theorem get_citations_json_key_error:
  assumes "map_of kvs ''results'' = None"
  shows "get_citations_json (\<lambda>t. JObj kvs) s c d = Inl KeyError \<and>
         get_citations_json (\<lambda>t. JObj [(''results'', JObj [(''bindings'', JArr (JObj [] # bs))])]) s c d =
           Inl KeyError"
  using assms by (simp add: get_citations_json_def)

theorem get_citations_json_key_error_witness:
  "get_citations_json (\<lambda>t. JObj [(''error'', JStr ''timeout'')]) ''32021R0664'' 1 0 = Inl KeyError"
  using get_citations_json_key_error [of "[(''error'', JStr ''timeout'')]" "''32021R0664''" 1 0 "[]"]
  by simp

end
