(* ===== verification/Spec2Isabelle.thy ===== *)
theory Spec2Isabelle
  imports Sweep Network Cost Output Response
begin

text \<open>
  \<^bold>\<open>A verification library for EU_legislation_reference_querier.\<close>

  \<^bold>\<open>The program.\<close> Two Python files. src/src/helper_functions.py queries the
  SPARQL endpoint of the EU publications office for citations between CELEX documents
  (\<open>get_citations\<close>), expands a seed document into a citation graph up to given
  depths in the citing and the cited direction (\<open>get_citations_structure\<close>),
  merges several seeds (\<open>get_citations_structure_multiple\<close>,
  \<open>get_citations_multiple\<close>) and scores a node set against a reference set
  (\<open>do_stats\<close>). src/src/main.py drives them: \<open>get_started\<close> (one hard-coded
  run and its score), \<open>get_indv_stats\<close> (a sweep over a grid of depths),
  \<open>generate_network\<close> (an undirected networkx graph filtered by degree), and the
  output helpers \<open>prep_edges_list\<close> (CSV of the links) and \<open>visualise_network\<close>
  (pyvis rendering of the filtered graph). Data flows from the query text through the
  endpoint, the expander and the aggregator to the evaluator, the sweep, the degree
  filter and the output helpers.

  \<^bold>\<open>The theories.\<close>
  \<^item> Prelude: the model's types (\<open>celex = string\<close>, \<open>link\<close>, the endpoint
    type \<open>sparql\<close>, the lookup log entry \<open>lookup_call\<close>), Python's exceptions
    \<open>py_error\<close>, \<open>str.startswith\<close>, the endpoints of a link set and the lemmas on
    them (collection \<open>link_simps\<close>).
  \<^item> Query (helper_functions.py lines 15--34): the request text
    \<open>sparql_query\<close>, the template's literal segments and Python's \<open>'%i'\<close> as
    \<open>format_int\<close>; a decoder of request texts and the round trip (C22): the text
    determines the id and both bounds, which justifies the parameter
    \<open>q :: sparql\<close> (an endpoint seen as a function of the query's parameters)
    used everywhere else.
  \<^item> Lookup (\<open>get_citations\<close>, lines 3--43): \<open>get_citations_text\<close> sends the
    request text to an endpoint over texts; \<open>get_citations\<close> is the same with the
    endpoint over the query's parameters. The set of bindings and the legislation
    filter of line 41 are modelled.
  \<^item> Response (lines 35--43): the decoded JSON answer as a \<open>json\<close> value,
    Python's indexing and iteration on it, and \<open>get_citations_json\<close>, the function
    with its walk over \<open>ret['results']['bindings']\<close>; the round trip through the
    SPARQL JSON results format (C31) and the \<open>KeyError\<close> paths (C32).
  \<^item> Reach: the abstract specification of a bounded expansion, \<open>reach N k s\<close> and
    \<open>reach_links N k s\<close> over a one-hop neighbour function, with monotonicity and
    the lemma that re-expanding a self-citation adds nothing.
  \<^item> Expander (\<open>get_citations_structure\<close>, lines 65--95): a mutually recursive
    \<^theory_text>\<open>function\<close> whose second half, \<open>expand_targets\<close>, is the loop over the
    targets; \<open>target_result\<close> is one iteration. Depths are ints, the visited set is
    passed exactly as the code passes it, and each call returns, besides the pair
    (links, nodes), the lookups it issued in order. Termination is proved with the
    measure (depth budget \<open>nat c + nat d\<close>, call kind, targets left). Lemmas:
    the loop's result as a union over the targets, the two-direction split, the
    refinement to \<open>Reach\<close> (C1), the shape invariant (C2), the lookup log (C3),
    order independence (C4) and the missing short-circuit at depth (0, 0) (C5).
  \<^item> Cost: the lookups the expander issues; a document on a two-document citation
    cycle is looked up again in the cited direction (C6), a bound
    \<open>(B + 2) ^ (c + d)\<close> on their number when the endpoint returns at most \<open>B\<close>
    bindings (C23), the documents looked up are exactly the neighbourhoods one hop
    short of the depths (C24), an exponential count on two documents (C25), and that
    the visited set is dead in the citing direction (C30).
  \<^item> Aggregator (\<open>get_citations_structure_multiple\<close>, lines 98--107, and
    \<open>get_citations_multiple\<close>, lines 46--63): the seed invariant and refinement
    (C7, C8), the order of lookups across seeds (C9) and the union/non-union
    branches (C10--C12).
  \<^item> Stats (\<open>do_stats\<close>, lines 110--123): reals for floats, \<open>ZeroDivisionError\<close>
    in the code's evaluation order; bounds (C13), exactly when it raises and the closed
    form of F1 (C14).
  \<^item> Sweep (\<open>get_indv_stats\<close>, main.py lines 27--36): nested loops with the
    exception caught per cell and any other exception propagated as a value; the
    exact output (C15), when a cell is skipped (C16), bounds of scored lines (C17).
  \<^item> Network (\<open>generate_network\<close>, main.py lines 49--64): networkx degree with
    self-loops counted twice, the degree filter (C18, C19) and which exception the
    function raises, \<open>ZeroDivisionError\<close> from \<open>do_stats\<close> or \<open>AttributeError\<close>
    from the nonexistent \<open>nx.write_gex\<close> (C20).
  \<^item> Output (main.py lines 38--47 and 66--71): \<open>prep_edges_list\<close> with the
    expression of line 41 evaluated on Python values (\<open>py_val\<close>, \<open>py_add\<close>,
    \<open>py_slice1\<close>), so that its \<open>TypeError\<close> is derived (C28); the pyvis network
    as the record \<open>pyvis_network\<close> with \<open>add_nodes\<close> (which stores number-like
    ids as ints, through Python's \<open>int()\<close> as \<open>py_int\<close>), \<open>add_node\<close>,
    \<open>add_edge\<close> (with its assertion) and \<open>add_edges\<close> as state updates, and
    \<open>visualise_network\<close> built from them: exactly when it raises
    \<open>AssertionError\<close> (C26) and what it renders otherwise (C27).
  \<^item> This theory: \<open>get_started\<close> (main.py lines 6--25) and the composition of
    expander, aggregator and evaluator in both runs (C21, C29).

  \<^bold>\<open>Modelling choices.\<close> The SPARQL endpoint is an arbitrary function, so every
  theorem holds for every answer it may give; \<open>graph_sparql\<close> builds a mock endpoint
  from a list of links for the examples. Python sets are HOL sets; where the code
  iterates over a set the model iterates over a duplicate-free list and C4 shows the
  order does not matter. The globals the code reads but never defines
  (\<open>expert_docs\<close> in do_stats, \<open>sources\<close> in get_indv_stats, \<open>g\<close> in
  visualise_network) are parameters. Floats are reals (rounding is not modelled). No
  fuel is needed: every recursion is total by a measure or structural, and C23 bounds
  the number of requests a traversal makes. The pyvis methods follow the library's
  \<open>Network.add_nodes\<close>, \<open>add_node\<close> and \<open>add_edge\<close>; Python's \<open>int()\<close> is
  modelled on the characters of a byte string (no other Unicode digits or spaces);
  networkx's degree follows \<open>Graph.degree\<close>. Network failures of the endpoint are
  not modelled (a failing request would propagate as an exception and abort the
  whole traversal).

  \<^bold>\<open>Not modelled.\<close> The transport of the request and the parsing of the JSON
  text (an endpoint is a function from request texts to decoded JSON documents);
  printing; the file system (the CSV text of \<open>prep_edges_list\<close> is its result, the
  GEXF file is not produced since the call raises); the HTML rendering of
  \<open>nt.show\<close>. main.py does not parse as written (an import continued on a new line
  without parentheses, lines 1--2, and a parameter without default after defaulted
  ones, line 66); its functions are modelled as the evident intended code.

  \<^bold>\<open>Findings.\<close> The recursion guard skips the visited check in the citing direction,
  where the visited set has no effect at all (C30), and the visited set is not
  forwarded to recursive calls (C6), so documents are looked up repeatedly,
  exponentially often in the depth (C25), though C1 shows the links and nodes are
  still exactly the bounded neighbourhoods; depth (0, 0) still queries the endpoint
  (C5); the id is put into the query unescaped (C22 needs ids without a double
  quote) and a negative depth yields an invalid path bound \<open>{1,-n}\<close>;
  \<open>union=False\<close> never intersects (C10) and drops the seed for one source (C12);
  \<open>generate_network\<close> always raises (C20); \<open>prep_edges_list\<close> raises
  \<open>TypeError\<close> for any link (C28); \<open>visualise_network\<close> raises for an edge
  between number-like ids, which CELEX ids never are (C26).
\<close>

definition get_started ::
    "sparql \<Rightarrow> celex set \<Rightarrow> celex \<Rightarrow> string \<Rightarrow> (py_error + link set \<times> celex set) \<times> lookup_call list" where
  "get_started q expert_docs source source_type =
     (let ((links, nodes), calls) =
            (if source_type = ''single''
             then get_citations_structure q ''32021R0664'' 2 0 {}
             else get_citations_structure_multiple q [''32019R0945'', ''32021R0664''] 2 1)
      in (case do_stats expert_docs nodes of
            Inl e \<Rightarrow> Inl e
          | Inr _ \<Rightarrow> Inr (links, nodes), calls))"

text \<open>
  C21. Composition of the expander with the evaluator in the single-seed run: for any
  lookup and finite reference set, \<open>get_started\<close> returns the two-hop citing
  neighbourhood of 32021R0664 (links and nodes) when it meets the reference set, and
  raises \<open>ZeroDivisionError\<close> when it does not.
\<close>

theorem get_started_single:
  assumes "finite E"
  shows "fst (get_started q E source ''single'') =
           (if reach (cites_nbrs q) 2 ''32021R0664'' \<inter> E = {} then Inl ZeroDivisionError
            else Inr (reach_links (cites_nbrs q) 2 ''32021R0664'', reach (cites_nbrs q) 2 ''32021R0664''))"
proof -
  let ?L = "reach_links (cites_nbrs q) 2 ''32021R0664''" and ?N = "reach (cites_nbrs q) 2 ''32021R0664''"
  have r: "fst (get_citations_structure q ''32021R0664'' 2 0 {}) = (?L, ?N)"
    using get_citations_structure_reach [of 2 0 q "''32021R0664''"] by (simp add: insert_absorb)
  have fin: "finite ?N"
    by (rule finite_reach) (simp add: cites_nbrs_def)
  show ?thesis
  proof (cases "?N \<inter> E = {}")
    case True
    then have "do_stats E ?N = Inl ZeroDivisionError"
      by (auto simp: do_stats_def Let_def)
    with True r show ?thesis
      by (simp add: get_started_def split_def)
  next
    case False
    with do_stats_closed_form [OF fin assms] r show ?thesis
      by (simp add: get_started_def split_def)
  qed
qed


theorem get_started_single_witness:
  "fst (get_started (graph_sparql [(''32021R0664'', ''32019R0945'')]) {''32019R0945''} ''ignored'' ''single'') =
     Inr ({(''32021R0664'', ''32019R0945'')}, {''32021R0664'', ''32019R0945''})"
  using get_started_single [of "{''32019R0945''}" "graph_sparql [(''32021R0664'', ''32019R0945'')]" "''ignored''"]
  by (simp add: numeral_2_eq_2 cites_nbrs_def graph_sparql_eval insert_commute)

text \<open>
  C29. Composition in the multi-seed run: for any lookup and finite reference set,
  \<open>get_started\<close> with a source type other than \<open>'single'\<close> returns the union over
  the two hard-coded seeds of the two-hop citing and one-hop cited neighbourhoods
  (links and nodes) when it meets the reference set, and raises
  \<open>ZeroDivisionError\<close> when it does not.
\<close>

theorem get_started_multiple:
  assumes "finite E" and "source_type \<noteq> ''single''"
  shows "fst (get_started q E source source_type) =
    (let seeds = {''32019R0945'', ''32021R0664''};
         N = (\<Union>s\<in>seeds. reach (cites_nbrs q) 2 s \<union> reach (cited_nbrs q) 1 s);
         L = (\<Union>s\<in>seeds. reach_links (cites_nbrs q) 2 s \<union> prod.swap ` reach_links (cited_nbrs q) 1 s)
     in if N \<inter> E = {} then Inl ZeroDivisionError else Inr (L, N))"
proof -
  let ?seeds = "{''32019R0945'', ''32021R0664''}"
  let ?N = "\<Union>s\<in>?seeds. reach (cites_nbrs q) 2 s \<union> reach (cited_nbrs q) 1 s"
  let ?L = "\<Union>s\<in>?seeds. reach_links (cites_nbrs q) 2 s \<union> prod.swap ` reach_links (cited_nbrs q) 1 s"
  have seeds: "{s \<in> set [''32019R0945'', ''32021R0664'']. startswith s ''3''} = ?seeds"
    by auto
  have "fst (get_citations_structure_multiple q [''32019R0945'', ''32021R0664''] 2 1) =
          (?L, set [''32019R0945'', ''32021R0664''] \<union> ?N)"
    unfolding get_citations_structure_multiple_result seeds
    using get_citations_structure_reach [of 2 1 q] by simp
  also have "set [''32019R0945'', ''32021R0664''] \<union> ?N = ?N"
    by auto
  finally have r: "fst (get_citations_structure_multiple q [''32019R0945'', ''32021R0664''] 2 1) = (?L, ?N)" .
  have fin: "finite ?N"
    by (auto intro!: finite_reach simp: cites_nbrs_def cited_nbrs_def)
  show ?thesis
  proof (cases "?N \<inter> E = {}")
    case True
    then have "do_stats E ?N = Inl ZeroDivisionError"
      by (auto simp: do_stats_def Let_def)
    with True r assms(2) show ?thesis
      by (simp add: get_started_def split_def Let_def)
  next
    case False
    with do_stats_closed_form [OF fin assms(1)] r assms(2) show ?thesis
      by (simp add: get_started_def split_def Let_def)
  qed
qed

theorem get_started_multiple_witness:
  "fst (get_started (graph_sparql [(''32019R0945'', ''32021R0664'')]) {''32021R0664''} ''ignored'' ''multiple'') =
     Inr ({(''32019R0945'', ''32021R0664'')}, {''32019R0945'', ''32021R0664''})"
  using get_started_multiple [of "{''32021R0664''}" "''multiple''" "graph_sparql [(''32019R0945'', ''32021R0664'')]" "''ignored''"]
  by (simp add: numeral_2_eq_2 cites_nbrs_def cited_nbrs_def graph_sparql_eval insert_commute Let_def)

end
